theory Spec2Isabelle
  imports Complex_Main
begin

section \<open>Data model\<close>

text \<open>
  The two scripts \<^verbatim>\<open>run_magna_gps_correction.py\<close> and \<^verbatim>\<open>run_smp_gps_correction.py\<close>
  work on pandas data frames. A frame is modelled as the list of its rows, a row as a
  record of the columns the scripts read.

  A pandas \<^verbatim>\<open>Timestamp\<close> is an integer count on a linear time axis; the instants the
  scripts build come from texts with whole seconds or from the profile decoder, and an
  instant is modelled as the
  \<^typ>\<open>int\<close> number of seconds since 1970-01-01T00:00:00. Arithmetic on instants is
  exact. The texts that the model reads by itself lie in the years 1678 to 2261, inside
  the range of the 64-bit nanosecond representation; what the library does with any
  other text is a parameter of the model. An instant with a fraction of a second, which
  only a \<^verbatim>\<open>ThisUTCtime\<close> text with a fraction can give, is outside the model.

  A floating-point column is modelled as \<^typ>\<open>real option\<close>: \<open>None\<close> is the null value
  of pandas (\<^verbatim>\<open>NaN\<close> of an empty field, or Python's \<^verbatim>\<open>None\<close>), the one that
  \<^verbatim>\<open>isnull()\<close> reports. Rounding of floating-point arithmetic is not modelled.
\<close>

datatype error = AttributeError | IndexError | NameError | UnboundLocalError | ValueError

text \<open>One row of \<^verbatim>\<open>df_emlid\<close> after either loader branch: the reference fix.\<close>

record emlid_row =
  timestamp :: int
  lat :: "real option"
  lon :: "real option"

section \<open>Nearest-fix lookup\<close>

text \<open>
  \<^verbatim>\<open>Series.searchsorted(value)\<close> with the default \<^verbatim>\<open>side='left'\<close> is the binary search
  of numpy: it keeps a window \<open>[lo, hi)\<close>, probes the middle and moves \<open>lo\<close> past a
  probe that is smaller than the key. It never checks that the column is sorted.
\<close>

function bisect_left :: "int list \<Rightarrow> int \<Rightarrow> nat \<Rightarrow> nat \<Rightarrow> nat" where
  "bisect_left a key lo hi =
     (if lo < hi then
        (let mid = lo + (hi - lo) div 2 in
         if a ! mid < key then bisect_left a key (mid + 1) hi
         else bisect_left a key lo mid)
      else lo)"
  by pat_completeness auto
termination
  by (relation "measure (\<lambda>(a, key, lo, hi). hi - lo)") auto

declare bisect_left.simps [simp del]

definition searchsorted :: "int list \<Rightarrow> int \<Rightarrow> nat" where
  "searchsorted a key = bisect_left a key 0 (length a)"

text \<open>\<^verbatim>\<open>df.iloc[i, :]\<close> for a position \<open>i \<ge> 0\<close>: the row, or \<^verbatim>\<open>IndexError\<close> past the end.\<close>

definition iloc :: "'a list \<Rightarrow> nat \<Rightarrow> error + 'a" where
  "iloc df i = (if i < length df then Inr (df ! i) else Inl IndexError)"

text \<open>
  \<^verbatim>\<open>get_lat_emlid\<close> and \<^verbatim>\<open>get_lon_emlid\<close> of \<^verbatim>\<open>run_magna_gps_correction.py\<close>: no
  exception handling, an out-of-range position raises.
\<close>

definition get_lat_emlid :: "int \<Rightarrow> emlid_row list \<Rightarrow> error + real option" where
  "get_lat_emlid timestamp_magna df_emlid =
     (case iloc df_emlid (searchsorted (map timestamp df_emlid) timestamp_magna) of
        Inl e \<Rightarrow> Inl e
      | Inr row \<Rightarrow> Inr (lat row))"

definition get_lon_emlid :: "int \<Rightarrow> emlid_row list \<Rightarrow> error + real option" where
  "get_lon_emlid timestamp_magna df_emlid =
     (case iloc df_emlid (searchsorted (map timestamp df_emlid) timestamp_magna) of
        Inl e \<Rightarrow> Inl e
      | Inr row \<Rightarrow> Inr (lon row))"

text \<open>
  The same two functions in \<^verbatim>\<open>run_smp_gps_correction.py\<close> wrap the lookup in
  \<^verbatim>\<open>try: ... except: lat = None\<close>, so every failure becomes an unset value. The
  instant of an event may be absent (\<^verbatim>\<open>NaT\<close>, here \<open>None\<close>): numpy orders it after
  every instant, the position is the length of the column and \<^verbatim>\<open>iloc\<close> raises, which
  the bare \<^verbatim>\<open>except\<close> catches like any other failure.
\<close>

definition get_lat_emlid_smp :: "int option \<Rightarrow> emlid_row list \<Rightarrow> real option" where
  "get_lat_emlid_smp timestamp_magna df_emlid =
     (case timestamp_magna of
        None \<Rightarrow> None
      | Some t \<Rightarrow> (case get_lat_emlid t df_emlid of Inl e \<Rightarrow> None | Inr v \<Rightarrow> v))"

definition get_lon_emlid_smp :: "int option \<Rightarrow> emlid_row list \<Rightarrow> real option" where
  "get_lon_emlid_smp timestamp_magna df_emlid =
     (case timestamp_magna of
        None \<Rightarrow> None
      | Some t \<Rightarrow> (case get_lon_emlid t df_emlid of Inl e \<Rightarrow> None | Inr v \<Rightarrow> v))"

section \<open>Coordinate conversion\<close>

text \<open>\<^verbatim>\<open>degree_dms2dec(dd, mn, ss)\<close>, the same in both scripts.\<close>

definition degree_dms2dec :: "real \<Rightarrow> real \<Rightarrow> real \<Rightarrow> real" where
  "degree_dms2dec dd mn ss =
     (if dd \<ge> 0 then dd + mn / 60 + ss / 3600
      else - (\<bar>dd\<bar> + mn / 60 + ss / 3600))"

text \<open>
  On a column with null entries: a \<^verbatim>\<open>NaN\<close> degree fails the test \<^verbatim>\<open>dd >= 0\<close>, takes the
  second branch and gives \<^verbatim>\<open>NaN\<close>; a \<^verbatim>\<open>NaN\<close> minute or second gives \<^verbatim>\<open>NaN\<close> in either
  branch.
\<close>

definition degree_dms2dec_col :: "real option \<Rightarrow> real option \<Rightarrow> real option \<Rightarrow> real option" where
  "degree_dms2dec_col dd mn ss =
     (case (dd, mn, ss) of
        (Some d, Some m, Some s) \<Rightarrow> Some (degree_dms2dec d m s)
      | _ \<Rightarrow> None)"

section \<open>Calendar and text\<close>

text \<open>
  A Python \<^verbatim>\<open>date\<close> is a triple of calendar fields, a \<^verbatim>\<open>datetime\<close> adds the clock
  fields. The day count follows \<^verbatim>\<open>date.toordinal()\<close> (proleptic Gregorian calendar,
  day 1 is 0001-01-01); day 719163 is 1970-01-01.
\<close>

record date =
  year :: nat
  month :: nat
  day :: nat

record datetime = date +
  hour :: nat
  minute :: nat
  second :: nat

definition is_leap :: "nat \<Rightarrow> bool" where
  "is_leap y = (y mod 4 = 0 \<and> (y mod 100 \<noteq> 0 \<or> y mod 400 = 0))"

definition days_in_month :: "nat \<Rightarrow> nat \<Rightarrow> nat" where
  "days_in_month y m =
     (if m = 2 then (if is_leap y then 29 else 28)
      else if m = 4 \<or> m = 6 \<or> m = 9 \<or> m = 11 then 30 else 31)"

definition days_before_year :: "nat \<Rightarrow> nat" where
  "days_before_year y = (let p = y - 1 in p * 365 + p div 4 - p div 100 + p div 400)"

definition days_before_month :: "nat \<Rightarrow> nat \<Rightarrow> nat" where
  "days_before_month y m = (\<Sum>k \<leftarrow> [1..<m]. days_in_month y k)"

definition toordinal :: "'a date_scheme \<Rightarrow> nat" where
  "toordinal d = days_before_year (year d) + days_before_month (year d) (month d) + day d"

definition seconds_of_day :: "nat \<Rightarrow> nat \<Rightarrow> nat \<Rightarrow> int" where
  "seconds_of_day h m s = int (h * 3600 + m * 60 + s)"

definition epoch_seconds :: "'a date_scheme \<Rightarrow> nat \<Rightarrow> nat \<Rightarrow> nat \<Rightarrow> int" where
  "epoch_seconds d h m s = (int (toordinal d) - 719163) * 86400 + seconds_of_day h m s"

text \<open>Decimal digits, \<^verbatim>\<open>int(text)\<close> on a run of digits, and zero-padded output.\<close>

definition digit_val :: "char \<Rightarrow> nat option" where
  "digit_val c =
     (let n = (of_char c :: nat) in if 48 \<le> n \<and> n \<le> 57 then Some (n - 48) else None)"

fun digits_val :: "nat \<Rightarrow> string \<Rightarrow> nat option" where
  "digits_val acc [] = Some acc"
| "digits_val acc (c # cs) =
     (case digit_val c of None \<Rightarrow> None | Some d \<Rightarrow> digits_val (10 * acc + d) cs)"

definition py_int :: "string \<Rightarrow> nat option" where
  "py_int s = (if s = [] then None else digits_val 0 s)"

definition digit_char :: "nat \<Rightarrow> char" where
  "digit_char n = char_of (48 + n)"

definition pad2 :: "nat \<Rightarrow> string" where
  "pad2 n = [digit_char (n div 10 mod 10), digit_char (n mod 10)]"

definition pad4 :: "nat \<Rightarrow> string" where
  "pad4 n = [digit_char (n div 1000 mod 10), digit_char (n div 100 mod 10),
             digit_char (n div 10 mod 10), digit_char (n mod 10)]"

text \<open>
  \<^verbatim>\<open>strftime('%Y-%m-%d')\<close> and \<^verbatim>\<open>strftime('%H:%M:%S')\<close>. Month, day and the clock fields
  are zero-padded to two digits. The year is written as the C library writes it, which
  on Linux (glibc) is its decimal numeral without padding: four digits from year 1000
  on, but \<^verbatim>\<open>50-06-15\<close> for 15 June of year 50.
\<close>

fun decimal :: "nat \<Rightarrow> string" where
  "decimal n = (if n < 10 then [digit_char n] else decimal (n div 10) @ [digit_char (n mod 10)])"

declare decimal.simps [simp del]

definition strftime_Ymd :: "'a date_scheme \<Rightarrow> string" where
  "strftime_Ymd d = decimal (year d) @ ''-'' @ pad2 (month d) @ ''-'' @ pad2 (day d)"

definition strftime_HMS :: "datetime \<Rightarrow> string" where
  "strftime_HMS t = pad2 (hour t) @ '':'' @ pad2 (minute t) @ '':'' @ pad2 (second t)"

text \<open>
  The fields of a text \<^verbatim>\<open>YYYY-MM-DD\<close> and of a text \<^verbatim>\<open>HH:MM:SS\<close>, with the calendar
  and clock ranges checked.
\<close>

definition parse_Ymd :: "string \<Rightarrow> date option" where
  "parse_Ymd s =
     (if length s = 10 \<and> s ! 4 = CHR ''-'' \<and> s ! 7 = CHR ''-'' then
        (case (py_int (take 4 s), py_int (take 2 (drop 5 s)), py_int (drop 8 s)) of
           (Some y, Some m, Some d) \<Rightarrow>
             if 1 \<le> y \<and> 1 \<le> m \<and> m \<le> 12 \<and> 1 \<le> d \<and> d \<le> days_in_month y m
             then Some \<lparr>year = y, month = m, day = d\<rparr> else None
         | _ \<Rightarrow> None)
      else None)"

definition parse_HMS :: "string \<Rightarrow> (nat \<times> nat \<times> nat) option" where
  "parse_HMS s =
     (if length s = 8 \<and> s ! 2 = CHR '':'' \<and> s ! 5 = CHR '':'' then
        (case (py_int (take 2 s), py_int (take 2 (drop 3 s)), py_int (drop 6 s)) of
           (Some h, Some m, Some se) \<Rightarrow>
             if h < 24 \<and> m < 60 \<and> se < 60 then Some (h, m, se) else None
         | _ \<Rightarrow> None)
      else None)"

text \<open>
  \<^verbatim>\<open>pd.to_datetime(text)\<close> without a format. A text \<^verbatim>\<open>YYYY-MM-DDTHH:MM:SS\<close> of a valid
  date and clock time in the years 1678 to 2261, which lie inside the range of a pandas
  \<^verbatim>\<open>Timestamp\<close> at every resolution, is read as that instant. Every other text is left to
  the library: pandas reads many more shapes (a shorter year, \<^verbatim>\<open>17:11:1\<close>, a fraction of
  a second), guesses the century of a short year, and on years outside that range
  raises or not according to its version. What it does there is the parameter \<open>guess\<close>.
\<close>

definition to_datetime :: "(string \<Rightarrow> error + int) \<Rightarrow> string \<Rightarrow> error + int" where
  "to_datetime guess s =
     (if length s = 19 \<and> s ! 10 = CHR ''T'' then
        (case (parse_Ymd (take 10 s), parse_HMS (drop 11 s)) of
           (Some d, Some (h, m, se)) \<Rightarrow>
             if 1678 \<le> year d \<and> year d \<le> 2261 then Inr (epoch_seconds d h m se) else guess s
         | _ \<Rightarrow> guess s)
      else guess s)"

text \<open>
  \<^verbatim>\<open>pd.to_datetime(str_datetime, format='ISO8601').date()\<close>: the calendar date of an
  ISO-8601 text. A date \<^verbatim>\<open>YYYY-MM-DD\<close> in the years 1678 to 2261, alone or followed by
  \<^verbatim>\<open>T\<close> or a blank and a clock time \<^verbatim>\<open>HH:MM:SS\<close> (the shape of the logger's
  \<^verbatim>\<open>TIMESTAMP\<close> column), gives that date. The other ISO-8601 shapes that pandas reads (a
  fraction of a second, \<^verbatim>\<open>HH:MM\<close>, the basic format without separators, a trailing
  \<^verbatim>\<open>Z\<close>) and the years outside that range are left to the parameter \<open>iso_other\<close>.
\<close>

definition iso8601_date :: "(string \<Rightarrow> error + date) \<Rightarrow> string \<Rightarrow> error + date" where
  "iso8601_date iso_other s =
     (case parse_Ymd (take 10 s) of
        None \<Rightarrow> iso_other s
      | Some d \<Rightarrow>
          if 1678 \<le> year d \<and> year d \<le> 2261 then
            (if length s = 10 then Inr d
             else if (s ! 10 = CHR ''T'' \<or> s ! 10 = CHR '' '') \<and> parse_HMS (drop 11 s) \<noteq> None
             then Inr d
             else iso_other s)
          else iso_other s)"

text \<open>
  Instances for the two parameters, used to run the functions on concrete texts. They
  follow pandas 3, where a text is no longer read at nanosecond resolution and a
  \<^verbatim>\<open>Timestamp\<close> holds every year from 1 to 9999.

  \<open>iso_text\<close>: a date \<^verbatim>\<open>YYYY-MM-DD\<close> of any year, alone or followed by \<^verbatim>\<open>T\<close> or a blank
  and a clock time \<^verbatim>\<open>HH:MM:SS\<close>, with or without a fraction of a second, gives that
  date. Any other text is rejected here.

  \<open>guess_text\<close>: a text \<^verbatim>\<open>YY-MM-DDTHH:MM:SS\<close> whose year has two digits, at most 68, is
  read in the century 2000 (the rule of \<^verbatim>\<open>%y\<close>; the window of fifty years around the
  year of the run, which dateutil uses, gives the same century in any run from 2019 to
  2050). Any other text is rejected here.
\<close>

definition iso_text :: "string \<Rightarrow> error + date" where
  "iso_text s =
     (case parse_Ymd (take 10 s) of
        None \<Rightarrow> Inl ValueError
      | Some d \<Rightarrow>
          if length s = 10 then Inr d
          else if (s ! 10 = CHR ''T'' \<or> s ! 10 = CHR '' '') \<and>
                  parse_HMS (take 8 (drop 11 s)) \<noteq> None \<and>
                  (length s = 19 \<or> (s ! 19 = CHR ''.'' \<and> py_int (drop 20 s) \<noteq> None))
          then Inr d
          else Inl ValueError)"

definition guess_text :: "string \<Rightarrow> error + int" where
  "guess_text s =
     (if length s = 17 \<and> s ! 2 = CHR ''-'' \<and> s ! 8 = CHR ''T'' then
        (case py_int (take 2 s) of
           None \<Rightarrow> Inl ValueError
         | Some yy \<Rightarrow>
             if yy \<le> 68 then
               (case (parse_Ymd (pad4 (2000 + yy) @ take 6 (drop 2 s)), parse_HMS (drop 9 s)) of
                  (Some d, Some (h, m, se)) \<Rightarrow> Inr (epoch_seconds d h m se)
                | _ \<Rightarrow> Inl ValueError)
             else Inl ValueError)
      else Inl ValueError)"

section \<open>Time normalisation\<close>

text \<open>
  \<^verbatim>\<open>row_to_time(date_str, time_str)\<close>. The two calls of \<^verbatim>\<open>dateutil.parser.parse\<close> are
  calls of a library; the parser is the parameter \<open>parse\<close>, which returns the fields of
  the \<^verbatim>\<open>datetime\<close> it builds or raises.
\<close>

definition row_to_time ::
  "(string \<Rightarrow> error + datetime) \<Rightarrow> (string \<Rightarrow> error + int) \<Rightarrow> string \<Rightarrow> string \<Rightarrow> error + int" where
  "row_to_time parse guess date_str time_str =
     (case parse date_str of
        Inl e \<Rightarrow> Inl e
      | Inr d \<Rightarrow>
          (case parse time_str of
             Inl e \<Rightarrow> Inl e
           | Inr t \<Rightarrow> to_datetime guess (strftime_Ymd d @ ''T'' @ strftime_HMS t)))"

text \<open>
  An instance for \<open>parse\<close>, used to run the loaders on concrete files: what
  \<^verbatim>\<open>dateutil.parser.parse\<close> returns on the two shapes of text that position files hold.
  A date \<^verbatim>\<open>YYYY-MM-DD\<close> or \<^verbatim>\<open>YYYY/MM/DD\<close> gives that date at midnight; a clock
  time \<^verbatim>\<open>HH:MM:SS\<close>, alone or followed by a fraction, gives that time (whole seconds)
  on the day of the run, \<open>today\<close>. Any other text is rejected here.
\<close>

definition parse_text :: "date \<Rightarrow> string \<Rightarrow> error + datetime" where
  "parse_text today s =
     (case parse_Ymd (map (\<lambda>c. if c = CHR ''/'' then CHR ''-'' else c) s) of
        Some d \<Rightarrow>
          Inr \<lparr>year = year d, month = month d, day = day d, hour = 0, minute = 0, second = 0\<rparr>
      | None \<Rightarrow>
          (case parse_HMS (take 8 s) of
             Some (h, m, se) \<Rightarrow>
               if length s = 8 \<or> s ! 8 = CHR ''.''
               then Inr \<lparr>year = year today, month = month today, day = day today,
                         hour = h, minute = m, second = se\<rparr>
               else Inl ValueError
           | None \<Rightarrow> Inl ValueError))"

text \<open>
  \<^verbatim>\<open>timestamp_magna(str_datetime, thisUTCtime)\<close>: the slices \<^verbatim>\<open>[:2]\<close>, \<^verbatim>\<open>[2:4]\<close>, \<^verbatim>\<open>[4:]\<close>
  joined by colons, the date of the logger's text, and 18 seconds added.
\<close>

definition timestamp_magna ::
  "(string \<Rightarrow> error + date) \<Rightarrow> (string \<Rightarrow> error + int) \<Rightarrow> string \<Rightarrow> string \<Rightarrow> error + int" where
  "timestamp_magna iso_other guess str_datetime thisUTCtime =
     (let strtime = take 2 thisUTCtime @ '':'' @ take 2 (drop 2 thisUTCtime) @ '':'' @
                    drop 4 thisUTCtime
      in case iso8601_date iso_other str_datetime of
           Inl e \<Rightarrow> Inl e
         | Inr d \<Rightarrow>
             (case to_datetime guess (strftime_Ymd d @ ''T'' @ strtime) of
                Inl e \<Rightarrow> Inl e
              | Inr t \<Rightarrow> Inr (t + 18)))"


section \<open>Loading the reference track\<close>

text \<open>
  What \<^verbatim>\<open>pd.read_csv\<close> gives for the position file under the options of each branch:
  for \<^verbatim>\<open>PPK_correction\<close> the columns 0, 1, 4, 6 renamed \<^verbatim>\<open>date\<close>, \<^verbatim>\<open>time\<close>, \<^verbatim>\<open>lat\<close>,
  \<^verbatim>\<open>lon\<close>; for \<^verbatim>\<open>PPP_correction\<close> the eight named columns.
\<close>

record ppk_row =
  ppk_date :: string
  ppk_time :: string
  ppk_lat :: "real option"
  ppk_lon :: "real option"

record ppp_row =
  YEAR_MM_DD :: string
  HR_MN_SS :: string
  LATDD :: "real option"
  LATMN :: "real option"
  LATSS :: "real option"
  LONDD :: "real option"
  LONMN :: "real option"
  LONSS :: "real option"

text \<open>
  \<^verbatim>\<open>df.apply(f, axis=1)\<close>: the rows in order, the first exception ends the call.
\<close>

fun apply_rows :: "('a \<Rightarrow> error + 'b) \<Rightarrow> 'a list \<Rightarrow> error + 'b list" where
  "apply_rows f [] = Inr []"
| "apply_rows f (x # xs) =
     (case f x of
        Inl e \<Rightarrow> Inl e
      | Inr y \<Rightarrow> (case apply_rows f xs of Inl e \<Rightarrow> Inl e | Inr ys \<Rightarrow> Inr (y # ys)))"

text \<open>
  The body of the \<^verbatim>\<open>PPK_correction\<close> branch: one fix per row, in file order. On a file
  without a data row \<^verbatim>\<open>apply\<close> gives back a frame, whose assignment to the single
  column \<^verbatim>\<open>timestamp\<close> raises \<^verbatim>\<open>ValueError\<close>.
\<close>

definition emlid_PPK ::
  "(string \<Rightarrow> error + datetime) \<Rightarrow> (string \<Rightarrow> error + int) \<Rightarrow> ppk_row list \<Rightarrow>
   error + emlid_row list" where
  "emlid_PPK parse guess rows =
     (if rows = [] then Inl ValueError
      else
        apply_rows (\<lambda>x. case row_to_time parse guess (ppk_date x) (ppk_time x) of
                           Inl e \<Rightarrow> Inl e
                         | Inr t \<Rightarrow> Inr \<lparr>timestamp = t, lat = ppk_lat x, lon = ppk_lon x\<rparr>) rows)"

text \<open>
  The body of the \<^verbatim>\<open>PPP_correction\<close> branch. On a file without a data row the
  assignment of the column \<^verbatim>\<open>lat\<close> raises \<^verbatim>\<open>ValueError\<close> in the same way.
\<close>

definition emlid_PPP ::
  "(string \<Rightarrow> error + datetime) \<Rightarrow> (string \<Rightarrow> error + int) \<Rightarrow> ppp_row list \<Rightarrow>
   error + emlid_row list" where
  "emlid_PPP parse guess rows =
     (if rows = [] then Inl ValueError
      else
        apply_rows (\<lambda>x. case row_to_time parse guess (YEAR_MM_DD x) (HR_MN_SS x) of
                           Inl e \<Rightarrow> Inl e
                         | Inr t \<Rightarrow> Inr \<lparr>timestamp = t,
                                          lat = degree_dms2dec_col (LATDD x) (LATMN x) (LATSS x),
                                          lon = degree_dms2dec_col (LONDD x) (LONMN x) (LONSS x)\<rparr>) rows)"

text \<open>
  The branch on \<^verbatim>\<open>correction_file_type\<close> in \<^verbatim>\<open>magnaprobe_get_gps_correction\<close>
  (\<^verbatim>\<open>if\<close> / \<^verbatim>\<open>elif\<close> / \<^verbatim>\<open>else: print(...)\<close>). The result is what was printed and the local
  variable \<^verbatim>\<open>df_emlid\<close>: \<open>None\<close> when no branch has bound it.
\<close>

definition magna_df_emlid ::
  "(string \<Rightarrow> error + datetime) \<Rightarrow> (string \<Rightarrow> error + int) \<Rightarrow> string \<Rightarrow>
   ppk_row list \<Rightarrow> ppp_row list \<Rightarrow> string list \<times> (error + emlid_row list option)" where
  "magna_df_emlid parse guess correction_file_type ppk ppp =
     (if correction_file_type = ''PPK_correction'' then
        ([], case emlid_PPK parse guess ppk of Inl e \<Rightarrow> Inl e | Inr df \<Rightarrow> Inr (Some df))
      else if correction_file_type = ''PPP_correction'' then
        ([], case emlid_PPP parse guess ppp of Inl e \<Rightarrow> Inl e | Inr df \<Rightarrow> Inr (Some df))
      else ([''enter a valid correction file''], Inr None))"

text \<open>
  The same place in \<^verbatim>\<open>smp_get_gps_correction\<close> is written with two separate \<^verbatim>\<open>if\<close>
  statements, the \<^verbatim>\<open>else\<close> belonging to the second: the message is printed whenever the
  mode is not \<^verbatim>\<open>PPP_correction\<close>.
\<close>

definition smp_df_emlid ::
  "(string \<Rightarrow> error + datetime) \<Rightarrow> (string \<Rightarrow> error + int) \<Rightarrow> string \<Rightarrow>
   ppk_row list \<Rightarrow> ppp_row list \<Rightarrow> string list \<times> (error + emlid_row list option)" where
  "smp_df_emlid parse guess correction_file_type ppk ppp =
     (case (if correction_file_type = ''PPK_correction''
            then (case emlid_PPK parse guess ppk of Inl e \<Rightarrow> Inl e | Inr df \<Rightarrow> Inr (Some df))
            else Inr None) of
        Inl e \<Rightarrow> ([], Inl e)
      | Inr df_emlid \<Rightarrow>
          if correction_file_type = ''PPP_correction'' then
            ([], case emlid_PPP parse guess ppp of Inl e \<Rightarrow> Inl e | Inr df \<Rightarrow> Inr (Some df))
          else ([''enter a valid correction file''], Inr df_emlid))"

text \<open>
  \<^verbatim>\<open>df_emlid.timestamp.iloc[0]\<close> and \<^verbatim>\<open>df_emlid.timestamp.iloc[-1]\<close>: reading the unbound
  local raises \<^verbatim>\<open>UnboundLocalError\<close>, an empty column raises \<^verbatim>\<open>IndexError\<close>.
\<close>

definition begin_end :: "emlid_row list option \<Rightarrow> error + (int \<times> int)" where
  "begin_end df_emlid =
     (case df_emlid of
        None \<Rightarrow> Inl UnboundLocalError
      | Some df \<Rightarrow> if df = [] then Inl IndexError
                   else Inr (timestamp (df ! 0), timestamp (df ! (length df - 1))))"

section \<open>The stream path: \<^verbatim>\<open>magnaprobe_get_gps_correction\<close>\<close>

text \<open>
  A row of \<^verbatim>\<open>df_magna\<close>: the columns the script reads. The file is read with one line
  skipped, so every column holds text. The columns that the script only passes through
  or drops are left out.
\<close>

record magna_row =
  TIMESTAMP :: string
  ThisUTCtime :: string
  latitude_a :: string
  latitude_b :: string
  Longitude_a :: string
  Longitude_b :: string

text \<open>A row of the file that is written.\<close>

record magna_clean_row =
  magna :: magna_row
  timestamp_utc :: int
  lat_magna :: real
  lon_magna :: real
  lat_emlid :: "real option"
  lon_emlid :: "real option"

text \<open>
  The filter \<^verbatim>\<open>(timestamp_utc > begin) & (timestamp_utc < end)\<close> on the rows paired with
  their instants.
\<close>

definition magna_trim :: "int \<Rightarrow> int \<Rightarrow> (magna_row \<times> int) list \<Rightarrow> (magna_row \<times> int) list" where
  "magna_trim begin end df_magna = filter (\<lambda>(x, t). t > begin \<and> t < end) df_magna"

text \<open>
  The columns \<^verbatim>\<open>lat_magna\<close> and \<^verbatim>\<open>lon_magna\<close> of a retained record. \<open>astype_float\<close>
  stands for \<^verbatim>\<open>.astype('float')\<close> on one text (a library conversion, \<^verbatim>\<open>ValueError\<close> on
  a text that is no number).
\<close>

definition magna_decimal ::
  "(string \<Rightarrow> error + real) \<Rightarrow> magna_row \<times> int \<Rightarrow> error + (magna_row \<times> int \<times> real \<times> real)" where
  "magna_decimal astype_float = (\<lambda>(x, t).
     case astype_float (latitude_a x) of Inl e \<Rightarrow> Inl e | Inr la \<Rightarrow>
     case astype_float (latitude_b x) of Inl e \<Rightarrow> Inl e | Inr lb \<Rightarrow>
     case astype_float (Longitude_a x) of Inl e \<Rightarrow> Inl e | Inr lo \<Rightarrow>
     case astype_float (Longitude_b x) of Inl e \<Rightarrow> Inl e | Inr lp \<Rightarrow>
       Inr (x, t, la + lb / 60, lo + lp / 60))"

text \<open>
  The two \<^verbatim>\<open>apply\<close> calls of the lookup inside the \<^verbatim>\<open>try\<close> block. On a frame without
  rows \<^verbatim>\<open>apply\<close> gives back a frame, whose assignment to the single column
  \<^verbatim>\<open>lat_emlid\<close> raises \<^verbatim>\<open>ValueError\<close>: the case that the \<^verbatim>\<open>except ValueError\<close> of the
  script reports.
\<close>

definition magna_lookup :: "emlid_row list \<Rightarrow> (magna_row \<times> int \<times> real \<times> real) list \<Rightarrow> error + magna_clean_row list" where
  "magna_lookup df_emlid df_magna_trim =
     (if df_magna_trim = [] then Inl ValueError
      else
       (case apply_rows (\<lambda>(x, t, la, lo). get_lat_emlid t df_emlid) df_magna_trim of
          Inl e \<Rightarrow> Inl e
        | Inr lats \<Rightarrow>
            (case apply_rows (\<lambda>(x, t, la, lo). get_lon_emlid t df_emlid) df_magna_trim of
               Inl e \<Rightarrow> Inl e
             | Inr lons \<Rightarrow>
                 Inr (map (\<lambda>((x, t, la, lo), (a, b)).
                            \<lparr>magna = x, timestamp_utc = t, lat_magna = la, lon_magna = lo,
                             lat_emlid = a, lon_emlid = b\<rparr>)
                          (zip df_magna_trim (zip lats lons))))))"

text \<open>
  The whole function. The result is what was printed and either the exception that
  leaves the function or the file written (\<open>None\<close>: the function returns without
  writing). On a stream file without a record the assignment of the column
  \<^verbatim>\<open>timestamp_utc\<close> raises \<^verbatim>\<open>ValueError\<close>, outside the \<^verbatim>\<open>try\<close> block. Only a
  \<^verbatim>\<open>ValueError\<close> inside the last \<^verbatim>\<open>try\<close> block is caught; the text of the error that
  the second message carries is left out.
\<close>

definition magnaprobe_get_gps_correction ::
  "(string \<Rightarrow> error + datetime) \<Rightarrow> (string \<Rightarrow> error + int) \<Rightarrow> (string \<Rightarrow> error + date) \<Rightarrow>
   (string \<Rightarrow> error + real) \<Rightarrow>
   magna_row list \<Rightarrow> ppk_row list \<Rightarrow> ppp_row list \<Rightarrow> string \<Rightarrow> string \<Rightarrow>
   string list \<times> (error + magna_clean_row list option)" where
  "magnaprobe_get_gps_correction parse guess iso_other astype_float df_magna ppk ppp
       output_csv_name correction_file_type =
     (case magna_df_emlid parse guess correction_file_type ppk ppp of
        (out, Inl e) \<Rightarrow> (out, Inl e)
      | (out, Inr df_emlid) \<Rightarrow>
     (case begin_end df_emlid of
        Inl e \<Rightarrow> (out, Inl e)
      | Inr (begin, end) \<Rightarrow>
     (case (if df_magna = [] then Inl ValueError
            else apply_rows (\<lambda>x. case timestamp_magna iso_other guess (TIMESTAMP x) (ThisUTCtime x) of
                                     Inl e \<Rightarrow> Inl e | Inr t \<Rightarrow> Inr (x, t)) df_magna) of
        Inl e \<Rightarrow> (out, Inl e)
      | Inr df_utc \<Rightarrow>
     (case apply_rows (magna_decimal astype_float) (magna_trim begin end df_utc) of
        Inl e \<Rightarrow> (out, Inl e)
      | Inr df_magna_trim \<Rightarrow>
     (case df_emlid of
        None \<Rightarrow> (out, Inl NameError)
      | Some df \<Rightarrow>
     (case magna_lookup df df_magna_trim of
        Inl ValueError \<Rightarrow>
          (out @ [''failed to retrieve lat/lon /n'', ''Error found : ''], Inr None)
      | Inl e \<Rightarrow> (out, Inl e)
      | Inr df_magna_clean \<Rightarrow>
          (out @ [''output csv file named : '' @ output_csv_name], Inr (Some df_magna_clean))))))))"

section \<open>The event path: \<^verbatim>\<open>smp_get_gps_correction\<close>\<close>

text \<open>
  \<^verbatim>\<open>needle in haystack\<close> on texts: the needle occurs as a contiguous run of characters.
\<close>

fun starts_with :: "string \<Rightarrow> string \<Rightarrow> bool" where
  "starts_with [] t = True"
| "starts_with (c # cs) [] = False"
| "starts_with (c # cs) (d # ds) = (c = d \<and> starts_with cs ds)"

fun py_in :: "string \<Rightarrow> string \<Rightarrow> bool" where
  "py_in s [] = (s = [])"
| "py_in s (c # cs) = (starts_with s (c # cs) \<or> py_in s cs)"

text \<open>The slice \<^verbatim>\<open>name[-8:]\<close>: the last eight characters, the whole text when shorter.\<close>

definition last8 :: "string \<Rightarrow> string" where
  "last8 name = drop (length name - 8) name"

text \<open>
  What the decoder \<^verbatim>\<open>Profile.load\<close> gives for one file: the instant (after
  \<^verbatim>\<open>tz_convert(None)\<close>; \<open>None\<close> is \<^verbatim>\<open>NaT\<close>) and the coordinates or \<^verbatim>\<open>None\<close>.
\<close>

record profile =
  p_timestamp :: "int option"
  coordinates :: "(real \<times> real) option"

text \<open>A row of \<^verbatim>\<open>smp_df\<close>.\<close>

record smp_row =
  name :: string
  smp_timestamp :: "int option"
  smp_lat :: "real option"
  smp_lon :: "real option"

text \<open>
  The loop over the directory: files whose name contains \<^verbatim>\<open>.PNT\<close> or \<^verbatim>\<open>.pnt\<close>, each
  with 18 seconds added to its instant.
\<close>

definition smp_df_of :: "(string \<times> profile) list \<Rightarrow> smp_row list" where
  "smp_df_of listdir =
     map (\<lambda>(file, p).
            \<lparr>name = file,
             smp_timestamp = map_option (\<lambda>t. t + 18) (p_timestamp p),
             smp_lat = map_option fst (coordinates p),
             smp_lon = map_option snd (coordinates p)\<rparr>)
         (filter (\<lambda>(file, p). py_in ''.PNT'' file \<or> py_in ''.pnt'' file) listdir)"

text \<open>
  The catalog: the column \<^verbatim>\<open>file\<close> of the sheet, each entry already as the text
  \<^verbatim>\<open>str(row.file)\<close>. For one entry, the rows of \<^verbatim>\<open>smp_df\<close> that the boolean mask selects.
\<close>

definition matching_row :: "smp_row list \<Rightarrow> string \<Rightarrow> smp_row list" where
  "matching_row smp_df file = filter (\<lambda>x. py_in file (last8 (name x))) smp_df"

text \<open>
  The loop over the catalog and \<^verbatim>\<open>pd.concat(list_rows, ignore_index=True)\<close>: the
  selections one after the other. An empty catalog leaves nothing to concatenate
  (\<^verbatim>\<open>ValueError\<close>); a frame built from no event at all has no column \<^verbatim>\<open>name\<close>
  (\<^verbatim>\<open>AttributeError\<close> at the first entry).
\<close>

definition df_smp_excel_of :: "smp_row list \<Rightarrow> string list \<Rightarrow> error + smp_row list" where
  "df_smp_excel_of smp_df df_excel =
     (if df_excel = [] then Inl ValueError
      else if smp_df = [] then Inl AttributeError
      else Inr (concat (map (matching_row smp_df) df_excel)))"

text \<open>A mapped event with the two columns that the lookup adds.\<close>

record smp_excel_row =
  event :: smp_row
  smp_lat_emlid :: "real option"
  smp_lon_emlid :: "real option"

text \<open>
  The two \<^verbatim>\<open>apply\<close> calls of the lookup. With \<^verbatim>\<open>df_emlid\<close> unbound the lambda raises
  \<^verbatim>\<open>NameError\<close> before \<^verbatim>\<open>get_lat_emlid\<close> and its \<^verbatim>\<open>try\<close> are entered. (On a frame without
  rows pandas swallows that error and then rejects the assignment of the result with a
  \<^verbatim>\<open>ValueError\<close>.)
\<close>

definition smp_lookup :: "emlid_row list option \<Rightarrow> smp_row list \<Rightarrow> error + smp_excel_row list" where
  "smp_lookup df_emlid df_smp_excel =
     (case df_emlid of
        None \<Rightarrow> Inl (if df_smp_excel = [] then ValueError else NameError)
      | Some df \<Rightarrow>
          Inr (map (\<lambda>x. \<lparr>event = x,
                         smp_lat_emlid = get_lat_emlid_smp (smp_timestamp x) df,
                         smp_lon_emlid = get_lon_emlid_smp (smp_timestamp x) df\<rparr>)
                   df_smp_excel))"

text \<open>
  The test before the file is written, as the script has it: the column \<^verbatim>\<open>lat_emlid\<close> on
  both sides of the \<^verbatim>\<open>or\<close>.
\<close>

definition position_unmatched :: "smp_excel_row list \<Rightarrow> bool" where
  "position_unmatched df_smp_excel =
     ((\<exists>x \<in> set df_smp_excel. smp_lat_emlid x = None) \<or>
      (\<exists>x \<in> set df_smp_excel. smp_lat_emlid x = None))"

text \<open>
  The whole function, from the frame of events on. The result is what was printed and
  either the exception that leaves the function or the sheet that is written: the
  catalog and the mapped events side by side.
\<close>

definition smp_get_gps_correction ::
  "(string \<Rightarrow> error + datetime) \<Rightarrow> (string \<Rightarrow> error + int) \<Rightarrow> (string \<times> profile) list \<Rightarrow>
   ppk_row list \<Rightarrow> ppp_row list \<Rightarrow> string list \<Rightarrow> string \<Rightarrow> string \<Rightarrow>
   string list \<times> (error + (string list \<times> smp_excel_row list))" where
  "smp_get_gps_correction parse guess listdir ppk ppp df_excel output_csv_file
       correction_file_type =
     (let smp_df = smp_df_of listdir in
      case smp_df_emlid parse guess correction_file_type ppk ppp of
        (out, Inl e) \<Rightarrow> (out, Inl e)
      | (out, Inr df_emlid) \<Rightarrow>
     (case df_smp_excel_of smp_df df_excel of
        Inl e \<Rightarrow> (out, Inl e)
      | Inr df_smp_excel \<Rightarrow>
     (let out1 = out @ (if length df_smp_excel \<noteq> length df_excel
                        then [''Some files from the excel sheet are missing in the directory, check files!'']
                        else [])
      in case smp_lookup df_emlid df_smp_excel of
           Inl e \<Rightarrow> (out1, Inl e)
         | Inr df \<Rightarrow>
             (out1 @ (if position_unmatched df
                      then [''Some position could not be matched, check excel file''] else [])
                   @ [''the excel file : '' @ output_csv_file @ '' was created with updated position''],
              Inr (df_excel, df)))))"


section \<open>Properties of the binary search\<close>

lemma bisect_left_done: "\<not> lo < hi \<Longrightarrow> bisect_left a key lo hi = lo"
  by (subst bisect_left.simps) simp

lemma bisect_left_right:
  "lo < hi \<Longrightarrow> a ! (lo + (hi - lo) div 2) < key \<Longrightarrow>
   bisect_left a key lo hi = bisect_left a key (lo + (hi - lo) div 2 + 1) hi"
  by (subst bisect_left.simps) (simp add: Let_def)

lemma bisect_left_left:
  "lo < hi \<Longrightarrow> \<not> a ! (lo + (hi - lo) div 2) < key \<Longrightarrow>
   bisect_left a key lo hi = bisect_left a key lo (lo + (hi - lo) div 2)"
  by (subst bisect_left.simps) (simp add: Let_def)

lemma bisect_left_bounds:
  "lo \<le> hi \<Longrightarrow> lo \<le> bisect_left a key lo hi \<and> bisect_left a key lo hi \<le> hi"
proof (induction a key lo hi rule: bisect_left.induct)
  case (1 a key lo hi)
  show ?case
  proof (cases "lo < hi")
    case False
    then show ?thesis using "1.prems" by (simp add: bisect_left_done)
  next
    case True
    define mid where "mid = lo + (hi - lo) div 2"
    have m: "lo \<le> mid" "mid < hi" using True by (auto simp: mid_def)
    show ?thesis
    proof (cases "a ! mid < key")
      case True
      with "1.IH"(1) [OF \<open>lo < hi\<close> mid_def] m
      have "mid + 1 \<le> bisect_left a key (mid + 1) hi \<and> bisect_left a key (mid + 1) hi \<le> hi"
        by simp
      with True \<open>lo < hi\<close> m show ?thesis
        using bisect_left_right [of lo hi a key] by (simp add: mid_def)
    next
      case False
      with "1.IH"(2) [OF \<open>lo < hi\<close> mid_def] m
      have "lo \<le> bisect_left a key lo mid \<and> bisect_left a key lo mid \<le> mid"
        by simp
      with False \<open>lo < hi\<close> m show ?thesis
        using bisect_left_left [of lo hi a key] by (simp add: mid_def)
    qed
  qed
qed

text \<open>
  The loop invariant on a sorted column: everything left of the window is smaller than
  the key, everything from \<open>hi\<close> on is not. It is kept by every step and, at exit,
  characterises the result.
\<close>

lemma bisect_left_sorted:
  assumes "sorted a" "lo \<le> hi" "hi \<le> length a"
    and "\<forall>j<lo. a ! j < key" and "\<forall>j. hi \<le> j \<and> j < length a \<longrightarrow> key \<le> a ! j"
  shows "(\<forall>j<bisect_left a key lo hi. a ! j < key) \<and>
         (\<forall>j. bisect_left a key lo hi \<le> j \<and> j < length a \<longrightarrow> key \<le> a ! j)"
  using assms
proof (induction a key lo hi rule: bisect_left.induct)
  case (1 a key lo hi)
  show ?case
  proof (cases "lo < hi")
    case False
    then have "bisect_left a key lo hi = lo" by (rule bisect_left_done)
    moreover from False "1.prems" have "lo = hi" by simp
    ultimately show ?thesis using "1.prems" by simp
  next
    case True
    define mid where "mid = lo + (hi - lo) div 2"
    have m: "lo \<le> mid" "mid < hi" using True by (auto simp: mid_def)
    show ?thesis
    proof (cases "a ! mid < key")
      case lt: True
      have left: "\<forall>j<mid + 1. a ! j < key"
      proof (intro allI impI)
        fix j assume "j < mid + 1"
        then have "j \<le> mid" by simp
        with \<open>sorted a\<close> m "1.prems"(3) have "a ! j \<le> a ! mid"
          by (auto intro: sorted_nth_mono)
        with lt show "a ! j < key" by simp
      qed
      from "1.IH"(1) [OF True mid_def lt \<open>sorted a\<close> _ "1.prems"(3) left "1.prems"(5)] m
      have "(\<forall>j<bisect_left a key (mid + 1) hi. a ! j < key) \<and>
            (\<forall>j. bisect_left a key (mid + 1) hi \<le> j \<and> j < length a \<longrightarrow> key \<le> a ! j)"
        by simp
      with lt True show ?thesis
        using bisect_left_right [of lo hi a key] by (simp add: mid_def)
    next
      case ge: False
      have right: "\<forall>j. mid \<le> j \<and> j < length a \<longrightarrow> key \<le> a ! j"
      proof (intro allI impI)
        fix j assume "mid \<le> j \<and> j < length a"
        with \<open>sorted a\<close> have "a ! mid \<le> a ! j"
          by (auto intro: sorted_nth_mono)
        with ge show "key \<le> a ! j" by simp
      qed
      from m "1.prems"(3) have "mid \<le> length a" by simp
      from "1.IH"(2) [OF True mid_def ge \<open>sorted a\<close> m(1) this "1.prems"(4) right]
      have "(\<forall>j<bisect_left a key lo mid. a ! j < key) \<and>
            (\<forall>j. bisect_left a key lo mid \<le> j \<and> j < length a \<longrightarrow> key \<le> a ! j)" .
      with ge True show ?thesis
        using bisect_left_left [of lo hi a key] by (simp add: mid_def)
    qed
  qed
qed

lemma searchsorted_le_length: "searchsorted a key \<le> length a"
  using bisect_left_bounds [of 0 "length a" a key] by (simp add: searchsorted_def)

lemma searchsorted_sorted:
  assumes "sorted a"
  shows "(\<forall>j<searchsorted a key. a ! j < key) \<and>
         (\<forall>j. searchsorted a key \<le> j \<and> j < length a \<longrightarrow> key \<le> a ! j)"
  unfolding searchsorted_def
  by (rule bisect_left_sorted) (use assms in auto)

lemma searchsorted_in_range:
  assumes "sorted a" "a \<noteq> []" "key \<le> last a"
  shows "searchsorted a key < length a"
proof (rule ccontr)
  assume "\<not> searchsorted a key < length a"
  with searchsorted_le_length [of a key] have eq: "searchsorted a key = length a" by simp
  from \<open>a \<noteq> []\<close> have "length a - 1 < searchsorted a key" by (simp add: eq)
  with searchsorted_sorted [OF \<open>sorted a\<close>, of key] have "a ! (length a - 1) < key" by blast
  with \<open>a \<noteq> []\<close> \<open>key \<le> last a\<close> show False by (simp add: last_conv_nth)
qed

lemma lookup_in_range:
  assumes "searchsorted (map timestamp df_emlid) q < length df_emlid"
  shows "get_lat_emlid q df_emlid = Inr (lat (df_emlid ! searchsorted (map timestamp df_emlid) q))"
    and "get_lon_emlid q df_emlid = Inr (lon (df_emlid ! searchsorted (map timestamp df_emlid) q))"
  using assms by (simp_all add: get_lat_emlid_def get_lon_emlid_def iloc_def)

lemma lookup_out_of_range:
  assumes "\<not> searchsorted (map timestamp df_emlid) q < length df_emlid"
  shows "get_lat_emlid q df_emlid = Inl IndexError"
    and "get_lon_emlid q df_emlid = Inl IndexError"
  using assms by (simp_all add: get_lat_emlid_def get_lon_emlid_def iloc_def)

text \<open>
  Claim C1. On a track sorted ascending by instant and a query not later than the last
  fix, the lookup returns the latitude and the longitude of the fix at the insertion
  point: the first fix whose instant is not earlier than the query. For a query strictly
  between two consecutive fixes that is the later one; for a query equal to the instant
  of a fix it is a fix with that instant, the first of them, hence that very fix when no
  earlier fix shares its instant.
\<close>

theorem match_returns_insertion_point:
  assumes "sorted (map timestamp df_emlid)" and "df_emlid \<noteq> []"
    and "q \<le> timestamp (last df_emlid)"
  shows "let i = searchsorted (map timestamp df_emlid) q in
           i < length df_emlid \<and> q \<le> timestamp (df_emlid ! i) \<and>
           (\<forall>j<i. timestamp (df_emlid ! j) < q) \<and>
           get_lat_emlid q df_emlid = Inr (lat (df_emlid ! i)) \<and>
           get_lon_emlid q df_emlid = Inr (lon (df_emlid ! i)) \<and>
           (\<forall>k. Suc k < length df_emlid \<and> timestamp (df_emlid ! k) < q \<and>
                 q < timestamp (df_emlid ! Suc k) \<longrightarrow> i = Suc k) \<and>
           (\<forall>k<length df_emlid. timestamp (df_emlid ! k) = q \<longrightarrow>
                 timestamp (df_emlid ! i) = q \<and> i \<le> k \<and>
                 ((\<forall>j<k. timestamp (df_emlid ! j) \<noteq> q) \<longrightarrow> i = k))"
proof -
  let ?a = "map timestamp df_emlid"
  define i where "i = searchsorted ?a q"
  have ne: "?a \<noteq> []" using assms(2) by simp
  have la: "q \<le> last ?a" using assms(2,3) by (simp add: last_map)
  have r: "i < length df_emlid"
    using searchsorted_in_range [OF assms(1) ne la] by (simp add: i_def)
  have lo: "\<And>j. j < i \<Longrightarrow> timestamp (df_emlid ! j) < q"
  proof -
    fix j assume "j < i"
    with searchsorted_sorted [OF assms(1), of q] have "?a ! j < q" by (simp add: i_def)
    with \<open>j < i\<close> r show "timestamp (df_emlid ! j) < q" by simp
  qed
  have hi: "\<And>j. i \<le> j \<Longrightarrow> j < length df_emlid \<Longrightarrow> q \<le> timestamp (df_emlid ! j)"
  proof -
    fix j assume "i \<le> j" "j < length df_emlid"
    with searchsorted_sorted [OF assms(1), of q] have "q \<le> ?a ! j" by (simp add: i_def)
    with \<open>j < length df_emlid\<close> show "q \<le> timestamp (df_emlid ! j)" by simp
  qed
  have mono: "\<And>j k. j \<le> k \<Longrightarrow> k < length df_emlid \<Longrightarrow>
                timestamp (df_emlid ! j) \<le> timestamp (df_emlid ! k)"
  proof -
    fix j k assume "j \<le> k" "k < length df_emlid"
    with sorted_nth_mono [OF assms(1), of j k] have "?a ! j \<le> ?a ! k" by simp
    with \<open>j \<le> k\<close> \<open>k < length df_emlid\<close> show "timestamp (df_emlid ! j) \<le> timestamp (df_emlid ! k)"
      by simp
  qed
  have between: "i = Suc k"
    if "Suc k < length df_emlid" "timestamp (df_emlid ! k) < q" "q < timestamp (df_emlid ! Suc k)"
    for k
  proof (rule ccontr)
    assume "i \<noteq> Suc k"
    then consider "i \<le> k" | "Suc k < i" by linarith
    then show False
    proof cases
      case 1
      with hi [of k] that show False by simp
    next
      case 2
      with lo [of "Suc k"] that show False by simp
    qed
  qed
  have exact: "timestamp (df_emlid ! i) = q \<and> i \<le> k \<and>
               ((\<forall>j<k. timestamp (df_emlid ! j) \<noteq> q) \<longrightarrow> i = k)"
    if "k < length df_emlid" "timestamp (df_emlid ! k) = q" for k
  proof -
    have ik: "i \<le> k"
    proof (rule ccontr)
      assume "\<not> i \<le> k"
      with lo [of k] that show False by simp
    qed
    have eq: "timestamp (df_emlid ! i) = q"
      using hi [of i] r mono [OF ik that(1)] that(2) by simp
    from ik eq show ?thesis by (auto simp: le_less)
  qed
  have l: "get_lat_emlid q df_emlid = Inr (lat (df_emlid ! i))"
    "get_lon_emlid q df_emlid = Inr (lon (df_emlid ! i))"
    using lookup_in_range [of df_emlid q] r unfolding i_def by simp_all
  have lo': "\<forall>j<i. timestamp (df_emlid ! j) < q" using lo by blast
  have qi: "q \<le> timestamp (df_emlid ! i)" using hi [of i] r by simp
  have b': "\<forall>k. Suc k < length df_emlid \<and> timestamp (df_emlid ! k) < q \<and>
                q < timestamp (df_emlid ! Suc k) \<longrightarrow> i = Suc k"
    using between by blast
  have e': "\<forall>k<length df_emlid. timestamp (df_emlid ! k) = q \<longrightarrow>
                timestamp (df_emlid ! i) = q \<and> i \<le> k \<and>
                ((\<forall>j<k. timestamp (df_emlid ! j) \<noteq> q) \<longrightarrow> i = k)"
    using exact by blast
  from r qi lo' l b' e'
  have "i < length df_emlid \<and> q \<le> timestamp (df_emlid ! i) \<and>
        (\<forall>j<i. timestamp (df_emlid ! j) < q) \<and>
        get_lat_emlid q df_emlid = Inr (lat (df_emlid ! i)) \<and>
        get_lon_emlid q df_emlid = Inr (lon (df_emlid ! i)) \<and>
        (\<forall>k. Suc k < length df_emlid \<and> timestamp (df_emlid ! k) < q \<and>
              q < timestamp (df_emlid ! Suc k) \<longrightarrow> i = Suc k) \<and>
        (\<forall>k<length df_emlid. timestamp (df_emlid ! k) = q \<longrightarrow>
              timestamp (df_emlid ! i) = q \<and> i \<le> k \<and>
              ((\<forall>j<k. timestamp (df_emlid ! j) \<noteq> q) \<longrightarrow> i = k))"
    by (intro conjI)
  then show ?thesis unfolding Let_def i_def .
qed

theorem match_witness:
  "sorted (map timestamp [\<lparr>timestamp = 36000, lat = Some 45, lon = Some (-75)\<rparr>,
                          \<lparr>timestamp = 36010, lat = Some 45.001, lon = Some (-75.001)\<rparr>]) \<and>
   get_lat_emlid 36005 [\<lparr>timestamp = 36000, lat = Some 45, lon = Some (-75)\<rparr>,
                        \<lparr>timestamp = 36010, lat = Some 45.001, lon = Some (-75.001)\<rparr>] = Inr (Some 45.001) \<and>
   get_lon_emlid 36005 [\<lparr>timestamp = 36000, lat = Some 45, lon = Some (-75)\<rparr>,
                        \<lparr>timestamp = 36010, lat = Some 45.001, lon = Some (-75.001)\<rparr>] = Inr (Some (-75.001)) \<and>
   get_lat_emlid 36000 [\<lparr>timestamp = 36000, lat = Some 45, lon = Some (-75)\<rparr>,
                        \<lparr>timestamp = 36010, lat = Some 45.001, lon = Some (-75.001)\<rparr>] = Inr (Some 45)"
proof -
  let ?tr = "[\<lparr>timestamp = 36000, lat = Some 45, lon = Some (-75)\<rparr>,
              \<lparr>timestamp = 36010, lat = Some 45.001, lon = Some (-75.001)\<rparr>]"
  have s: "sorted (map timestamp ?tr)" by simp
  have n: "?tr \<noteq> []" by simp
  have i1: "searchsorted [36000, 36010] 36005 = 1" by code_simp
  have i2: "searchsorted [36000, 36010] 36000 = 0" by code_simp
  have "get_lat_emlid 36005 ?tr = Inr (Some 45.001) \<and> get_lon_emlid 36005 ?tr = Inr (Some (-75.001))"
    using match_returns_insertion_point [OF s n, of 36005] by (simp add: Let_def i1)
  moreover have "get_lat_emlid 36000 ?tr = Inr (Some 45)"
    using match_returns_insertion_point [OF s n, of 36000] by (simp add: Let_def i2)
  ultimately show ?thesis using s by simp
qed

text \<open>
  Claim C10. Whenever the latitude lookup succeeds, the longitude lookup succeeds too and
  both read the same row, the one at the position \<^verbatim>\<open>searchsorted\<close> gives for the
  instant; this needs no order on the track, and holds for the variants of both scripts.
\<close>

theorem lat_lon_same_fix:
  assumes "get_lat_emlid q df_emlid = Inr a"
  shows "\<exists>i<length df_emlid. i = searchsorted (map timestamp df_emlid) q \<and>
           a = lat (df_emlid ! i) \<and>
           get_lon_emlid q df_emlid = Inr (lon (df_emlid ! i)) \<and>
           get_lat_emlid_smp (Some q) df_emlid = lat (df_emlid ! i) \<and>
           get_lon_emlid_smp (Some q) df_emlid = lon (df_emlid ! i)"
proof (cases "searchsorted (map timestamp df_emlid) q < length df_emlid")
  case True
  with assms lookup_in_range [OF True] show ?thesis
    by (simp add: get_lat_emlid_smp_def get_lon_emlid_smp_def)
next
  case False
  with assms lookup_out_of_range(1) [OF False] show ?thesis by simp
qed

theorem lat_lon_same_fix_witness:
  "get_lat_emlid 2 [\<lparr>timestamp = 9, lat = Some 1, lon = Some 2\<rparr>,
                    \<lparr>timestamp = 3, lat = Some 4, lon = Some 5\<rparr>] = Inr (Some 1) \<and>
   get_lon_emlid 2 [\<lparr>timestamp = 9, lat = Some 1, lon = Some 2\<rparr>,
                    \<lparr>timestamp = 3, lat = Some 4, lon = Some 5\<rparr>] = Inr (Some 2)"
proof -
  let ?tr = "[\<lparr>timestamp = 9, lat = Some 1, lon = Some 2\<rparr>,
              \<lparr>timestamp = 3, lat = Some 4, lon = Some 5\<rparr>]"
  have i: "searchsorted [9, 3] 2 = 0" by code_simp
  have l: "get_lat_emlid 2 ?tr = Inr (Some 1)"
    by (simp add: get_lat_emlid_def iloc_def i)
  from lat_lon_same_fix [OF l] l show ?thesis by (simp add: i)
qed

section \<open>Properties of the time normalisation\<close>








lemma decimal_digit: "n < 10 \<Longrightarrow> decimal n = [digit_char n]"
  by (subst decimal.simps) simp

lemma decimal_step: "10 \<le> n \<Longrightarrow> decimal n = decimal (n div 10) @ [digit_char (n mod 10)]"
  by (subst decimal.simps) simp

lemma decimal_pad4:
  assumes "1000 \<le> n" "n \<le> 9999"
  shows "decimal n = pad4 n"
proof -
  have h: "n div 10 div 10 = n div 100" "n div 100 div 10 = n div 1000"
    by (simp_all add: div_mult2_eq [symmetric])
  have a: "10 \<le> n" "10 \<le> n div 10" "10 \<le> n div 100" "n div 1000 < 10"
    using assms by simp_all
  have "decimal n = [digit_char (n div 1000), digit_char (n div 100 mod 10),
                     digit_char (n div 10 mod 10), digit_char (n mod 10)]"
    using decimal_step [OF a(1)] decimal_step [OF a(2)] decimal_step [OF a(3)]
      decimal_digit [OF a(4)]
    by (simp add: h)
  moreover have "n div 1000 mod 10 = n div 1000" using a(4) by simp
  ultimately show ?thesis by (simp add: pad4_def)
qed










lemma digit_char_simps:
  "digit_char 0 = CHR ''0''" "digit_char (Suc 0) = CHR ''1''" "digit_char 1 = CHR ''1''"
  "digit_char 2 = CHR ''2''" "digit_char 3 = CHR ''3''" "digit_char 4 = CHR ''4''"
  "digit_char 5 = CHR ''5''" "digit_char 6 = CHR ''6''" "digit_char 7 = CHR ''7''"
  "digit_char 8 = CHR ''8''" "digit_char 9 = CHR ''9''"
  by code_simp+







section \<open>Properties of the coordinate conversion\<close>

text \<open>
  Claim C7, as stated, fails: the sign of the result is not always the sign of the
  degrees. With degrees 0 and minutes \<open>-30\<close> the result is \<open>-1/2\<close>, and with all three
  inputs 0 the result is 0, not positive.
\<close>

theorem degree_dms2dec_sign_counterexample:
  "(0::real) \<le> 0 \<and> degree_dms2dec 0 (-30) 0 = - (1 / 2) \<and> \<not> 0 < degree_dms2dec 0 (-30) 0 \<and>
   degree_dms2dec 0 0 0 = 0"
  by (simp add: degree_dms2dec_def)

text \<open>
  Claim C7, amended. For all inputs the result is \<open>|dd| + mn/60 + ss/3600\<close> multiplied by
  \<open>+1\<close> when \<open>dd \<ge> 0\<close> and by \<open>-1\<close> otherwise, and the function is total. When minutes
  and seconds are not negative, the result is not negative for \<open>dd \<ge> 0\<close> (positive
  unless all three inputs are 0) and negative for \<open>dd < 0\<close>. The two sample values lie
  within \<open>10\<^sup>-\<^sup>9\<close> of \<open>\<plusminus>45.504166667\<close>.
\<close>

theorem degree_dms2dec_value:
  "degree_dms2dec dd mn ss = (if dd \<ge> 0 then 1 else - 1) * (\<bar>dd\<bar> + mn / 60 + ss / 3600) \<and>
   (0 \<le> mn \<and> 0 \<le> ss \<longrightarrow>
      (0 \<le> dd \<longrightarrow> 0 \<le> degree_dms2dec dd mn ss) \<and>
      (0 \<le> dd \<and> (0 < dd \<or> 0 < mn \<or> 0 < ss) \<longrightarrow> 0 < degree_dms2dec dd mn ss) \<and>
      (dd < 0 \<longrightarrow> degree_dms2dec dd mn ss < 0)) \<and>
   \<bar>degree_dms2dec 45 30 15 - 45.504166667\<bar> < 1 / 10 ^ 9 \<and>
   \<bar>degree_dms2dec (- 45) 30 15 - (- 45.504166667)\<bar> < 1 / 10 ^ 9"
proof -
  have v: "degree_dms2dec dd mn ss = (if dd \<ge> 0 then 1 else - 1) * (\<bar>dd\<bar> + mn / 60 + ss / 3600)"
    by (simp add: degree_dms2dec_def)
  have s: "0 \<le> mn \<and> 0 \<le> ss \<longrightarrow>
      (0 \<le> dd \<longrightarrow> 0 \<le> degree_dms2dec dd mn ss) \<and>
      (0 \<le> dd \<and> (0 < dd \<or> 0 < mn \<or> 0 < ss) \<longrightarrow> 0 < degree_dms2dec dd mn ss) \<and>
      (dd < 0 \<longrightarrow> degree_dms2dec dd mn ss < 0)"
    unfolding degree_dms2dec_def by (auto intro: add_nonneg_nonneg add_pos_nonneg add_nonneg_pos)
  have e1: "\<bar>degree_dms2dec 45 30 15 - 45.504166667\<bar> < 1 / 10 ^ 9"
    by (simp add: degree_dms2dec_def)
  have e2: "\<bar>degree_dms2dec (- 45) 30 15 - (- 45.504166667)\<bar> < 1 / 10 ^ 9"
    by (simp add: degree_dms2dec_def)
  from v s e1 e2 show ?thesis by (intro conjI)
qed

theorem degree_dms2dec_witness:
  "degree_dms2dec 45 30 15 = 45 + 30 / 60 + 15 / 3600 \<and> 0 < degree_dms2dec 45 30 15 \<and>
   degree_dms2dec (- 45) 30 15 < 0"
  using degree_dms2dec_value [of 45 30 15] degree_dms2dec_value [of "- 45" 30 15]
  by simp

section \<open>Properties of the loaders\<close>

lemmas text_eval = parse_text_def parse_Ymd_def parse_HMS_def py_int_def digit_val_def
  days_in_month_def is_leap_def row_to_time_def strftime_Ymd_def decimal_pad4 strftime_HMS_def
  pad2_def pad4_def
  digit_char_simps to_datetime_def epoch_seconds_def toordinal_def days_before_year_def
  days_before_month_def seconds_of_day_def upt_rec

lemma r1: "row_to_time (parse_text today) guess_text ''2023/12/15'' ''10:00:10.000'' = Inr 1702634410"
  by (simp add: text_eval)

lemma r2: "row_to_time (parse_text today) guess_text ''2023/12/15'' ''10:00:00.000'' = Inr 1702634400"
  by (simp add: text_eval)

lemma apply_rows_nth:
  "apply_rows f xs = Inr ys \<Longrightarrow> length ys = length xs \<and> (\<forall>i<length xs. f (xs ! i) = Inr (ys ! i))"
proof (induction xs arbitrary: ys)
  case Nil
  then show ?case by simp
next
  case (Cons x xs)
  from Cons.prems obtain y ys' where y: "f x = Inr y" and r: "apply_rows f xs = Inr ys'"
    and ys: "ys = y # ys'"
    by (auto split: sum.splits)
  from Cons.IH [OF r] have "length ys' = length xs" "\<forall>i<length xs. f (xs ! i) = Inr (ys' ! i)"
    by simp_all
  with y ys show ?case by (auto simp: nth_Cons')
qed

lemma fix_of_row:
  "(case r of Inl e \<Rightarrow> Inl e | Inr t \<Rightarrow> Inr \<lparr>timestamp = t, lat = a, lon = b\<rparr>) = Inr x \<Longrightarrow>
   r = Inr (timestamp x) \<and> lat x = a \<and> lon x = b"
  by (cases r) auto

lemma emlid_PPK_rows:
  assumes "emlid_PPK parse guess rows = Inr df"
  shows "length df = length rows"
    and "\<forall>i<length rows. row_to_time parse guess (ppk_date (rows ! i)) (ppk_time (rows ! i)) =
                            Inr (timestamp (df ! i)) \<and>
                          lat (df ! i) = ppk_lat (rows ! i) \<and> lon (df ! i) = ppk_lon (rows ! i)"
proof -
  from assms have ne: "rows \<noteq> []" by (auto simp: emlid_PPK_def)
  note n = apply_rows_nth [OF assms [unfolded emlid_PPK_def if_not_P [OF ne]]]
  from n show "length df = length rows" by simp
  show "\<forall>i<length rows. row_to_time parse guess (ppk_date (rows ! i)) (ppk_time (rows ! i)) =
                            Inr (timestamp (df ! i)) \<and>
                          lat (df ! i) = ppk_lat (rows ! i) \<and> lon (df ! i) = ppk_lon (rows ! i)"
  proof (intro allI impI)
    fix i assume "i < length rows"
    with n have "(case row_to_time parse guess (ppk_date (rows ! i)) (ppk_time (rows ! i)) of
                    Inl e \<Rightarrow> Inl e
                  | Inr t \<Rightarrow> Inr \<lparr>timestamp = t, lat = ppk_lat (rows ! i), lon = ppk_lon (rows ! i)\<rparr>) =
                 Inr (df ! i)"
      by simp
    then show "row_to_time parse guess (ppk_date (rows ! i)) (ppk_time (rows ! i)) =
                 Inr (timestamp (df ! i)) \<and>
               lat (df ! i) = ppk_lat (rows ! i) \<and> lon (df ! i) = ppk_lon (rows ! i)"
      by (rule fix_of_row)
  qed
qed

lemma emlid_PPP_rows:
  assumes "emlid_PPP parse guess rows = Inr df"
  shows "length df = length rows"
    and "\<forall>i<length rows. row_to_time parse guess (YEAR_MM_DD (rows ! i)) (HR_MN_SS (rows ! i)) =
                            Inr (timestamp (df ! i)) \<and>
            lat (df ! i) = degree_dms2dec_col (LATDD (rows ! i)) (LATMN (rows ! i)) (LATSS (rows ! i)) \<and>
            lon (df ! i) = degree_dms2dec_col (LONDD (rows ! i)) (LONMN (rows ! i)) (LONSS (rows ! i))"
proof -
  from assms have ne: "rows \<noteq> []" by (auto simp: emlid_PPP_def)
  note n = apply_rows_nth [OF assms [unfolded emlid_PPP_def if_not_P [OF ne]]]
  from n show "length df = length rows" by simp
  show "\<forall>i<length rows. row_to_time parse guess (YEAR_MM_DD (rows ! i)) (HR_MN_SS (rows ! i)) =
                            Inr (timestamp (df ! i)) \<and>
            lat (df ! i) = degree_dms2dec_col (LATDD (rows ! i)) (LATMN (rows ! i)) (LATSS (rows ! i)) \<and>
            lon (df ! i) = degree_dms2dec_col (LONDD (rows ! i)) (LONMN (rows ! i)) (LONSS (rows ! i))"
  proof (intro allI impI)
    fix i assume "i < length rows"
    with n have "(case row_to_time parse guess (YEAR_MM_DD (rows ! i)) (HR_MN_SS (rows ! i)) of
                    Inl e \<Rightarrow> Inl e
                  | Inr t \<Rightarrow> Inr \<lparr>timestamp = t,
                       lat = degree_dms2dec_col (LATDD (rows ! i)) (LATMN (rows ! i)) (LATSS (rows ! i)),
                       lon = degree_dms2dec_col (LONDD (rows ! i)) (LONMN (rows ! i)) (LONSS (rows ! i))\<rparr>) =
                 Inr (df ! i)"
      by simp
    then show "row_to_time parse guess (YEAR_MM_DD (rows ! i)) (HR_MN_SS (rows ! i)) =
                 Inr (timestamp (df ! i)) \<and>
            lat (df ! i) = degree_dms2dec_col (LATDD (rows ! i)) (LATMN (rows ! i)) (LATSS (rows ! i)) \<and>
            lon (df ! i) = degree_dms2dec_col (LONDD (rows ! i)) (LONMN (rows ! i)) (LONSS (rows ! i))"
      by (rule fix_of_row)
  qed
qed

lemma begin_end_Some:
  "df \<noteq> [] \<Longrightarrow> begin_end (Some df) = Inr (timestamp (hd df), timestamp (last df))"
  by (simp add: begin_end_def hd_conv_nth last_conv_nth)

lemma df_emlid_cases:
  assumes "magna_df_emlid parse guess mode ppk ppp = (out, Inr (Some df)) \<or>
           smp_df_emlid parse guess mode ppk ppp = (out, Inr (Some df))"
  shows "(mode = ''PPK_correction'' \<and> emlid_PPK parse guess ppk = Inr df) \<or>
         (mode = ''PPP_correction'' \<and> emlid_PPP parse guess ppp = Inr df)"
  using assms
  by (auto simp: magna_df_emlid_def smp_df_emlid_def split: if_splits sum.splits)

text \<open>
  Claim C3, amended. In both modes and in both scripts the loader does not sort: the
  track holds one fix per row of the file, in the order of the file, \<^verbatim>\<open>begin\<close> is the
  instant of the first row and \<^verbatim>\<open>end\<close> the instant of the last row. The track is
  therefore sorted exactly when the rows of the file are.
\<close>

theorem track_in_file_order:
  assumes "magna_df_emlid parse guess mode ppk ppp = (out, Inr (Some df)) \<or>
           smp_df_emlid parse guess mode ppk ppp = (out, Inr (Some df))"
  shows "((mode = ''PPK_correction'' \<and> length df = length ppk \<and>
           (\<forall>i<length ppk. row_to_time parse guess (ppk_date (ppk ! i)) (ppk_time (ppk ! i)) =
                             Inr (timestamp (df ! i)))) \<or>
          (mode = ''PPP_correction'' \<and> length df = length ppp \<and>
           (\<forall>i<length ppp. row_to_time parse guess (YEAR_MM_DD (ppp ! i)) (HR_MN_SS (ppp ! i)) =
                             Inr (timestamp (df ! i))))) \<and>
         (df \<noteq> [] \<longrightarrow> begin_end (Some df) = Inr (timestamp (hd df), timestamp (last df)))"
proof -
  from df_emlid_cases [OF assms] emlid_PPK_rows [of parse guess ppk df] emlid_PPP_rows [of parse guess ppp df]
  have "(mode = ''PPK_correction'' \<and> length df = length ppk \<and>
           (\<forall>i<length ppk. row_to_time parse guess (ppk_date (ppk ! i)) (ppk_time (ppk ! i)) =
                             Inr (timestamp (df ! i)))) \<or>
          (mode = ''PPP_correction'' \<and> length df = length ppp \<and>
           (\<forall>i<length ppp. row_to_time parse guess (YEAR_MM_DD (ppp ! i)) (HR_MN_SS (ppp ! i)) =
                             Inr (timestamp (df ! i))))"
    by blast
  then show ?thesis using begin_end_Some [of df] by blast
qed

lemma ppk_unsorted:
  "magna_df_emlid (parse_text today) guess_text ''PPK_correction''
     [\<lparr>ppk_date = ''2023/12/15'', ppk_time = ''10:00:10.000'', ppk_lat = Some 45, ppk_lon = Some (- 75)\<rparr>,
      \<lparr>ppk_date = ''2023/12/15'', ppk_time = ''10:00:00.000'', ppk_lat = Some 45, ppk_lon = Some (- 75)\<rparr>] ppp =
   ([], Inr (Some [\<lparr>timestamp = 1702634410, lat = Some 45, lon = Some (- 75)\<rparr>,
                   \<lparr>timestamp = 1702634400, lat = Some 45, lon = Some (- 75)\<rparr>]))"
  by (simp add: magna_df_emlid_def emlid_PPK_def r1 r2)

text \<open>
  Claim C3, as stated, fails: a file whose two rows come in decreasing order of time
  gives a track in that same order, not sorted, with \<^verbatim>\<open>begin\<close> later than \<^verbatim>\<open>end\<close>.
\<close>

theorem track_not_sorted_counterexample:
  "magna_df_emlid (parse_text \<lparr>year = 2024, month = 1, day = 2\<rparr>) guess_text ''PPK_correction''
     [\<lparr>ppk_date = ''2023/12/15'', ppk_time = ''10:00:10.000'', ppk_lat = Some 45, ppk_lon = Some (- 75)\<rparr>,
      \<lparr>ppk_date = ''2023/12/15'', ppk_time = ''10:00:00.000'', ppk_lat = Some 45, ppk_lon = Some (- 75)\<rparr>] [] =
   ([], Inr (Some [\<lparr>timestamp = 1702634410, lat = Some 45, lon = Some (- 75)\<rparr>,
                   \<lparr>timestamp = 1702634400, lat = Some 45, lon = Some (- 75)\<rparr>])) \<and>
   \<not> sorted (map timestamp [\<lparr>timestamp = 1702634410, lat = Some 45, lon = Some (- 75)\<rparr>,
                           \<lparr>timestamp = 1702634400, lat = Some 45, lon = Some (- 75)\<rparr>]) \<and>
   begin_end (Some [\<lparr>timestamp = 1702634410, lat = Some 45, lon = Some (- 75)\<rparr>,
                    \<lparr>timestamp = 1702634400, lat = Some 45, lon = Some (- 75)\<rparr>]) =
     Inr (1702634410, 1702634400)"
  by (simp add: ppk_unsorted begin_end_def)

theorem track_in_file_order_witness:
  "smp_df_emlid (parse_text \<lparr>year = 2024, month = 1, day = 2\<rparr>) guess_text ''PPP_correction'' []
     [\<lparr>YEAR_MM_DD = ''2023/12/15'', HR_MN_SS = ''10:00:00.000'', LATDD = Some 45, LATMN = Some 30,
       LATSS = Some 0, LONDD = Some (- 75), LONMN = Some 0, LONSS = Some 0\<rparr>,
      \<lparr>YEAR_MM_DD = ''2023/12/15'', HR_MN_SS = ''10:00:10.000'', LATDD = Some 45, LATMN = Some 30,
       LATSS = Some 0, LONDD = Some (- 75), LONMN = Some 0, LONSS = Some 0\<rparr>] =
   ([], Inr (Some [\<lparr>timestamp = 1702634400, lat = Some 45.5, lon = Some (- 75)\<rparr>,
                   \<lparr>timestamp = 1702634410, lat = Some 45.5, lon = Some (- 75)\<rparr>])) \<and>
   begin_end (Some [\<lparr>timestamp = 1702634400, lat = Some 45.5, lon = Some (- 75)\<rparr>,
                    \<lparr>timestamp = 1702634410, lat = Some 45.5, lon = Some (- 75)\<rparr>]) =
     Inr (1702634400, 1702634410)"
proof -
  let ?rows = "[\<lparr>YEAR_MM_DD = ''2023/12/15'', HR_MN_SS = ''10:00:00.000'', LATDD = Some 45,
                 LATMN = Some 30, LATSS = Some 0, LONDD = Some (- 75), LONMN = Some 0, LONSS = Some 0\<rparr>,
                \<lparr>YEAR_MM_DD = ''2023/12/15'', HR_MN_SS = ''10:00:10.000'', LATDD = Some 45,
                 LATMN = Some 30, LATSS = Some 0, LONDD = Some (- 75), LONMN = Some 0, LONSS = Some 0\<rparr>]"
  let ?df = "[\<lparr>timestamp = 1702634400, lat = Some 45.5, lon = Some (- 75)\<rparr>,
              \<lparr>timestamp = 1702634410, lat = Some 45.5, lon = Some (- 75)\<rparr>]"
  have e: "smp_df_emlid (parse_text \<lparr>year = 2024, month = 1, day = 2\<rparr>) guess_text ''PPP_correction'' [] ?rows =
           ([], Inr (Some ?df))"
    by (simp add: smp_df_emlid_def emlid_PPP_def r1 r2 degree_dms2dec_col_def degree_dms2dec_def)
  from track_in_file_order [OF disjI2 [OF e]] e show ?thesis by simp
qed

section \<open>Properties of the event path\<close>

lemma bisect_left_all_less:
  "\<forall>j<length a. a ! j < key \<Longrightarrow> lo \<le> hi \<Longrightarrow> hi \<le> length a \<Longrightarrow> bisect_left a key lo hi = hi"
proof (induction a key lo hi rule: bisect_left.induct)
  case (1 a key lo hi)
  show ?case
  proof (cases "lo < hi")
    case False
    with "1.prems" show ?thesis by (simp add: bisect_left_done)
  next
    case True
    define mid where "mid = lo + (hi - lo) div 2"
    have m: "lo \<le> mid" "mid < hi" using True by (auto simp: mid_def)
    with "1.prems" have lt: "a ! mid < key" by simp
    from "1.IH"(1) [OF True mid_def lt "1.prems"(1) _ "1.prems"(3)] m
    have "bisect_left a key (mid + 1) hi = hi" by simp
    with bisect_left_right [OF True lt [unfolded mid_def]] show ?thesis by (simp add: mid_def)
  qed
qed

lemma searchsorted_past_end:
  assumes "\<forall>x\<in>set a. x < key"
  shows "searchsorted a key = length a"
  unfolding searchsorted_def
  by (rule bisect_left_all_less) (use assms in auto)

lemma smp_lookup_unset:
  assumes "ts = None \<or> (\<exists>t. ts = Some t \<and> (\<forall>x\<in>set df. timestamp x < t))"
  shows "get_lat_emlid_smp ts df = None \<and> get_lon_emlid_smp ts df = None"
proof (cases ts)
  case None
  then show ?thesis by (simp add: get_lat_emlid_smp_def get_lon_emlid_smp_def)
next
  case (Some t)
  with assms have "\<forall>x\<in>set (map timestamp df). x < t" by auto
  then have "searchsorted (map timestamp df) t = length df"
    using searchsorted_past_end [of "map timestamp df" t] by simp
  then have "\<not> searchsorted (map timestamp df) t < length df" by simp
  from lookup_out_of_range [OF this] Some show ?thesis
    by (simp add: get_lat_emlid_smp_def get_lon_emlid_smp_def)
qed

lemma smp_run:
  assumes "smp_df_emlid parse guess mode ppk ppp = (out, Inr (Some df))"
    and "df_smp_excel_of (smp_df_of listdir) df_excel = Inr evs"
  shows "smp_get_gps_correction parse guess listdir ppk ppp df_excel output_csv_file mode =
           (out @ (if length evs \<noteq> length df_excel
                   then [''Some files from the excel sheet are missing in the directory, check files!'']
                   else [])
                @ (if position_unmatched
                        (map (\<lambda>x. \<lparr>event = x,
                                    smp_lat_emlid = get_lat_emlid_smp (smp_timestamp x) df,
                                    smp_lon_emlid = get_lon_emlid_smp (smp_timestamp x) df\<rparr>) evs)
                   then [''Some position could not be matched, check excel file''] else [])
                @ [''the excel file : '' @ output_csv_file @ '' was created with updated position''],
            Inr (df_excel,
                 map (\<lambda>x. \<lparr>event = x,
                            smp_lat_emlid = get_lat_emlid_smp (smp_timestamp x) df,
                            smp_lon_emlid = get_lon_emlid_smp (smp_timestamp x) df\<rparr>) evs))"
  using assms by (simp add: smp_get_gps_correction_def smp_lookup_def Let_def)

text \<open>
  Claim C5. In the event path, once a track is loaded and the catalog is mapped to events,
  the run completes and writes the sheet with one row per mapped event, in order. Each
  event's corrected coordinates depend on that event's instant alone; an event whose
  instant is absent, or later than every fix of the track, gets both coordinates unset.
\<close>

theorem event_lookup_failure_is_local:
  assumes "smp_df_emlid parse guess mode ppk ppp = (out, Inr (Some df))"
    and "df_smp_excel_of (smp_df_of listdir) df_excel = Inr evs"
  shows "\<exists>msgs rows.
           smp_get_gps_correction parse guess listdir ppk ppp df_excel output_csv_file mode =
             (msgs, Inr (df_excel, rows)) \<and>
           map event rows = evs \<and>
           (\<forall>i<length evs.
              smp_lat_emlid (rows ! i) = get_lat_emlid_smp (smp_timestamp (evs ! i)) df \<and>
              smp_lon_emlid (rows ! i) = get_lon_emlid_smp (smp_timestamp (evs ! i)) df \<and>
              (smp_timestamp (evs ! i) = None \<or>
               (\<exists>t. smp_timestamp (evs ! i) = Some t \<and> (\<forall>x\<in>set df. timestamp x < t)) \<longrightarrow>
               smp_lat_emlid (rows ! i) = None \<and> smp_lon_emlid (rows ! i) = None))"
proof -
  let ?rows = "map (\<lambda>x. \<lparr>event = x,
                            smp_lat_emlid = get_lat_emlid_smp (smp_timestamp x) df,
                            smp_lon_emlid = get_lon_emlid_smp (smp_timestamp x) df\<rparr>) evs"
  have a: "map event ?rows = evs" by (simp add: comp_def)
  have b: "\<forall>i<length evs.
              smp_lat_emlid (?rows ! i) = get_lat_emlid_smp (smp_timestamp (evs ! i)) df \<and>
              smp_lon_emlid (?rows ! i) = get_lon_emlid_smp (smp_timestamp (evs ! i)) df \<and>
              (smp_timestamp (evs ! i) = None \<or>
               (\<exists>t. smp_timestamp (evs ! i) = Some t \<and> (\<forall>x\<in>set df. timestamp x < t)) \<longrightarrow>
               smp_lat_emlid (?rows ! i) = None \<and> smp_lon_emlid (?rows ! i) = None)"
    using smp_lookup_unset [of _ df] by simp
  from smp_run [OF assms, of output_csv_file] a b show ?thesis by blast
qed







section \<open>Runs on concrete files\<close>

abbreviation example_today :: date where
  "example_today \<equiv> \<lparr>year = 2024, month = 1, day = 2\<rparr>"

abbreviation example_ppp :: "ppp_row list" where
  "example_ppp \<equiv>
     [\<lparr>YEAR_MM_DD = ''2023/12/15'', HR_MN_SS = ''10:00:00.000'', LATDD = Some 45, LATMN = Some 0,
       LATSS = Some 0, LONDD = Some (- 75), LONMN = Some 0, LONSS = Some 0\<rparr>,
      \<lparr>YEAR_MM_DD = ''2023/12/15'', HR_MN_SS = ''10:00:10.000'', LATDD = Some 45, LATMN = Some 0,
       LATSS = Some 0, LONDD = Some (- 75), LONMN = Some 0, LONSS = Some 0\<rparr>]"

abbreviation example_track :: "emlid_row list" where
  "example_track \<equiv>
     [\<lparr>timestamp = 1702634400, lat = Some 45, lon = Some (- 75)\<rparr>,
      \<lparr>timestamp = 1702634410, lat = Some 45, lon = Some (- 75)\<rparr>]"

lemma example_ppp_track:
  "smp_df_emlid (parse_text example_today) guess_text ''PPP_correction'' [] example_ppp =
     ([], Inr (Some example_track))"
  by (simp add: smp_df_emlid_def emlid_PPP_def r1 r2 degree_dms2dec_col_def degree_dms2dec_def)

lemma example_positions:
  "searchsorted [1702634400, 1702634410] 1702634405 = 1"
  "searchsorted [1702634400, 1702634410] 1702640018 = 2"
  by code_simp+

lemma example_lookups:
  "get_lat_emlid_smp (Some 1702634405) example_track = Some 45"
  "get_lon_emlid_smp (Some 1702634405) example_track = Some (- 75)"
  by (simp_all add: get_lat_emlid_smp_def get_lon_emlid_smp_def get_lat_emlid_def get_lon_emlid_def
      iloc_def example_positions)

theorem event_lookup_failure_witness:
  "\<exists>msgs rows.
     smp_get_gps_correction (parse_text example_today) guess_text
       [(''S0001.pnt'', \<lparr>p_timestamp = Some 1702634387, coordinates = None\<rparr>),
        (''S0002.pnt'', \<lparr>p_timestamp = Some 1702640000, coordinates = None\<rparr>),
        (''S0003.pnt'', \<lparr>p_timestamp = None, coordinates = None\<rparr>)]
       [] example_ppp [''0001'', ''0002'', ''0003''] ''catalog.xlsx'' ''PPP_correction'' =
       (msgs, Inr ([''0001'', ''0002'', ''0003''], rows)) \<and>
     length rows = 3 \<and>
     smp_lat_emlid (rows ! 0) = Some 45 \<and> smp_lon_emlid (rows ! 0) = Some (- 75) \<and>
     smp_lat_emlid (rows ! 1) = None \<and> smp_lon_emlid (rows ! 1) = None \<and>
     smp_lat_emlid (rows ! 2) = None \<and> smp_lon_emlid (rows ! 2) = None"
proof -
  let ?dir = "[(''S0001.pnt'', \<lparr>p_timestamp = Some 1702634387, coordinates = None\<rparr>),
               (''S0002.pnt'', \<lparr>p_timestamp = Some 1702640000, coordinates = None\<rparr>),
               (''S0003.pnt'', \<lparr>p_timestamp = None, coordinates = None\<rparr>)]"
  let ?evs = "[\<lparr>name = ''S0001.pnt'', smp_timestamp = Some 1702634405, smp_lat = None, smp_lon = None\<rparr>,
               \<lparr>name = ''S0002.pnt'', smp_timestamp = Some 1702640018, smp_lat = None, smp_lon = None\<rparr>,
               \<lparr>name = ''S0003.pnt'', smp_timestamp = None, smp_lat = None, smp_lon = None\<rparr>]"
  have d: "smp_df_of ?dir = ?evs" by (simp add: smp_df_of_def)
  have m: "df_smp_excel_of (smp_df_of ?dir) [''0001'', ''0002'', ''0003''] = Inr ?evs"
    unfolding d by (simp add: df_smp_excel_of_def matching_row_def last8_def)
  from event_lookup_failure_is_local [OF example_ppp_track m, of "''catalog.xlsx''"]
  obtain msgs rows where
    run: "smp_get_gps_correction (parse_text example_today) guess_text ?dir [] example_ppp
            [''0001'', ''0002'', ''0003''] ''catalog.xlsx'' ''PPP_correction'' =
          (msgs, Inr ([''0001'', ''0002'', ''0003''], rows))"
    and ev: "map event rows = ?evs"
    and r: "\<forall>i<length ?evs.
              smp_lat_emlid (rows ! i) = get_lat_emlid_smp (smp_timestamp (?evs ! i)) example_track \<and>
              smp_lon_emlid (rows ! i) = get_lon_emlid_smp (smp_timestamp (?evs ! i)) example_track \<and>
              (smp_timestamp (?evs ! i) = None \<or>
               (\<exists>t. smp_timestamp (?evs ! i) = Some t \<and> (\<forall>x\<in>set example_track. timestamp x < t)) \<longrightarrow>
               smp_lat_emlid (rows ! i) = None \<and> smp_lon_emlid (rows ! i) = None)"
    by (elim exE conjE) (rule that; assumption)
  from ev have l: "length rows = 3" using length_map [of event rows] by simp
  have r0: "smp_lat_emlid (rows ! 0) = Some 45 \<and> smp_lon_emlid (rows ! 0) = Some (- 75)"
    using r [rule_format, of 0] by (simp add: example_lookups)
  have i1: "(1::nat) < length ?evs" and i2: "(2::nat) < length ?evs" by simp_all
  have p1: "smp_timestamp (?evs ! 1) = None \<or>
            (\<exists>t. smp_timestamp (?evs ! 1) = Some t \<and> (\<forall>x\<in>set example_track. timestamp x < t))"
    by simp
  have p2: "smp_timestamp (?evs ! 2) = None \<or>
            (\<exists>t. smp_timestamp (?evs ! 2) = Some t \<and> (\<forall>x\<in>set example_track. timestamp x < t))"
    by simp
  note r1 = r [rule_format, OF i1, THEN conjunct2, THEN conjunct2, THEN mp, OF p1]
  note r2 = r [rule_format, OF i2, THEN conjunct2, THEN conjunct2, THEN mp, OF p2]
  from run l r0 r1 r2 show ?thesis by blast
qed



abbreviation example_ppk_no_lon :: "ppk_row list" where
  "example_ppk_no_lon \<equiv>
     [\<lparr>ppk_date = ''2023/12/15'', ppk_time = ''10:00:00.000'', ppk_lat = Some 45, ppk_lon = None\<rparr>,
      \<lparr>ppk_date = ''2023/12/15'', ppk_time = ''10:00:10.000'', ppk_lat = Some 45, ppk_lon = None\<rparr>]"

lemma example_ppk_no_lon_track:
  "smp_df_emlid (parse_text example_today) guess_text ''PPK_correction'' example_ppk_no_lon [] =
     ([''enter a valid correction file''],
      Inr (Some [\<lparr>timestamp = 1702634400, lat = Some 45, lon = None\<rparr>,
                 \<lparr>timestamp = 1702634410, lat = Some 45, lon = None\<rparr>]))"
  by (simp add: smp_df_emlid_def emlid_PPK_def r1 r2)

text \<open>
  Claim C9 on a failing input. The position file has no value in its longitude column.
  The one event lies between the two fixes: its corrected latitude is set, its corrected
  longitude is unset, and the run prints no warning that a position could not be matched,
  because the test reads the latitude column twice.
\<close>

theorem unset_longitude_not_reported:
  "smp_get_gps_correction (parse_text example_today) guess_text
       [(''S0001.pnt'', \<lparr>p_timestamp = Some 1702634387, coordinates = None\<rparr>)]
       example_ppk_no_lon [] [''0001''] ''catalog.xlsx'' ''PPK_correction'' =
     ([''enter a valid correction file'',
       ''the excel file : catalog.xlsx was created with updated position''],
      Inr ([''0001''],
           [\<lparr>event = \<lparr>name = ''S0001.pnt'', smp_timestamp = Some 1702634405, smp_lat = None,
                         smp_lon = None\<rparr>,
              smp_lat_emlid = Some 45, smp_lon_emlid = None\<rparr>]))"
proof -
  let ?dir = "[(''S0001.pnt'', \<lparr>p_timestamp = Some 1702634387, coordinates = None\<rparr>)]"
  let ?evs = "[\<lparr>name = ''S0001.pnt'', smp_timestamp = Some 1702634405, smp_lat = None, smp_lon = None\<rparr>]"
  let ?df = "[\<lparr>timestamp = 1702634400, lat = Some 45, lon = None\<rparr>,
              \<lparr>timestamp = 1702634410, lat = Some 45, lon = None\<rparr>]"
  have d: "smp_df_of ?dir = ?evs" by (simp add: smp_df_of_def)
  have m: "df_smp_excel_of (smp_df_of ?dir) [''0001''] = Inr ?evs"
    unfolding d by (simp add: df_smp_excel_of_def matching_row_def last8_def)
  have l: "get_lat_emlid_smp (Some 1702634405) ?df = Some 45"
    "get_lon_emlid_smp (Some 1702634405) ?df = None"
    by (simp_all add: get_lat_emlid_smp_def get_lon_emlid_smp_def get_lat_emlid_def get_lon_emlid_def
        iloc_def example_positions)
  show ?thesis
    unfolding smp_run [OF example_ppk_no_lon_track m]
    by (simp add: position_unmatched_def l)
qed

text \<open>
  Claim C6 on the failing inputs. For a mode other than the two recognised names the
  branch on the mode does not fail: it prints a message and leaves \<^verbatim>\<open>df_emlid\<close> unbound.
  The stream script then stops with \<^verbatim>\<open>UnboundLocalError\<close> when it reads \<^verbatim>\<open>begin\<close>; the
  event script goes on to map the catalog and to check the count, and stops with
  \<^verbatim>\<open>NameError\<close> at the first lookup.
\<close>

theorem unrecognized_mode_runs_on:
  assumes "mode \<noteq> ''PPK_correction''" and "mode \<noteq> ''PPP_correction''"
  shows "magna_df_emlid parse guess mode ppk ppp = ([''enter a valid correction file''], Inr None) \<and>
         smp_df_emlid parse guess mode ppk ppp = ([''enter a valid correction file''], Inr None) \<and>
         magnaprobe_get_gps_correction parse guess iso_other astype_float df_magna ppk ppp output_csv_name mode =
           ([''enter a valid correction file''], Inl UnboundLocalError) \<and>
         (df_excel \<noteq> [] \<and> smp_df_of listdir \<noteq> [] \<and>
          concat (map (matching_row (smp_df_of listdir)) df_excel) \<noteq> [] \<longrightarrow>
          fst (smp_get_gps_correction parse guess listdir ppk ppp df_excel output_csv_file mode) =
            ''enter a valid correction file'' #
            (if length (concat (map (matching_row (smp_df_of listdir)) df_excel)) \<noteq> length df_excel
             then [''Some files from the excel sheet are missing in the directory, check files!'']
             else []) \<and>
          snd (smp_get_gps_correction parse guess listdir ppk ppp df_excel output_csv_file mode) =
            Inl NameError)"
  using assms
  by (simp add: magna_df_emlid_def smp_df_emlid_def magnaprobe_get_gps_correction_def begin_end_def
      smp_get_gps_correction_def df_smp_excel_of_def smp_lookup_def Let_def)

theorem unrecognized_mode_witness:
  "magnaprobe_get_gps_correction (parse_text example_today) guess_text iso_text (\<lambda>s. Inr 0) [] [] example_ppp
     ''out.csv'' ''XYZ'' = ([''enter a valid correction file''], Inl UnboundLocalError) \<and>
   magna_df_emlid (parse_text example_today) guess_text ''XYZ'' [] example_ppp =
     ([''enter a valid correction file''], Inr None)"
  using unrecognized_mode_runs_on [of "''XYZ''" "parse_text example_today" guess_text "[]"
      example_ppp iso_text "\<lambda>s. Inr 0" "[]" "''out.csv''"]
  by simp

section \<open>Properties of the stream path\<close>

lemma magna_decimal_row:
  "magna_decimal af p = Inr q \<Longrightarrow> (fst q, fst (snd q)) = p"
  by (cases p) (auto simp: magna_decimal_def split: sum.splits)

lemma magna_decimal_keeps:
  assumes "apply_rows (magna_decimal af) xs = Inr ys"
  shows "map (\<lambda>q. (fst q, fst (snd q))) ys = xs"
proof (rule nth_equalityI)
  note n = apply_rows_nth [OF assms]
  from n show "length (map (\<lambda>q. (fst q, fst (snd q))) ys) = length xs" by simp
  fix i assume "i < length (map (\<lambda>q. (fst q, fst (snd q))) ys)"
  with n have i: "i < length xs" "i < length ys" by simp_all
  with n have "magna_decimal af (xs ! i) = Inr (ys ! i)" by simp
  from magna_decimal_row [OF this] i show "map (\<lambda>q. (fst q, fst (snd q))) ys ! i = xs ! i" by simp
qed

lemma magna_lookup_keeps:
  assumes "magna_lookup df xs = Inr clean"
  shows "map (\<lambda>r. (magna r, timestamp_utc r)) clean = map (\<lambda>q. (fst q, fst (snd q))) xs"
proof -
  from assms obtain lats lons where
    la: "apply_rows (\<lambda>(x, t, la, lo). get_lat_emlid t df) xs = Inr lats"
    and lo: "apply_rows (\<lambda>(x, t, la, lo). get_lon_emlid t df) xs = Inr lons"
    and c: "clean = map (\<lambda>((x, t, la, lo), (a, b)).
                          \<lparr>magna = x, timestamp_utc = t, lat_magna = la, lon_magna = lo,
                           lat_emlid = a, lon_emlid = b\<rparr>) (zip xs (zip lats lons))"
    by (auto simp: magna_lookup_def split: sum.splits if_splits)
  from apply_rows_nth [OF la] apply_rows_nth [OF lo]
  have len: "length lats = length xs" "length lons = length xs" by simp_all
  show ?thesis
  proof (rule nth_equalityI)
    show "length (map (\<lambda>r. (magna r, timestamp_utc r)) clean) =
          length (map (\<lambda>q. (fst q, fst (snd q))) xs)"
      by (simp add: c len)
    fix i assume "i < length (map (\<lambda>r. (magna r, timestamp_utc r)) clean)"
    then have i: "i < length xs" by (simp add: c len)
    then show "map (\<lambda>r. (magna r, timestamp_utc r)) clean ! i = map (\<lambda>q. (fst q, fst (snd q))) xs ! i"
      by (cases "xs ! i") (simp add: c len)
  qed
qed

lemma magna_run_stages:
  assumes "magnaprobe_get_gps_correction parse guess iso_other af df_magna ppk ppp nm mode = (out, Inr (Some clean))"
  shows "\<exists>out0 df b e df_utc trim.
           magna_df_emlid parse guess mode ppk ppp = (out0, Inr (Some df)) \<and>
           begin_end (Some df) = Inr (b, e) \<and>
           apply_rows (\<lambda>x. case timestamp_magna iso_other guess (TIMESTAMP x) (ThisUTCtime x) of
                              Inl e \<Rightarrow> Inl e | Inr t \<Rightarrow> Inr (x, t)) df_magna = Inr df_utc \<and>
           apply_rows (magna_decimal af) (magna_trim b e df_utc) = Inr trim \<and>
           magna_lookup df trim = Inr clean"
  using assms
  by (auto simp: magnaprobe_get_gps_correction_def
      split: prod.splits sum.splits option.splits error.splits if_splits)

lemma utc_row:
  "(case r of Inl e \<Rightarrow> Inl e | Inr t \<Rightarrow> Inr (x, t)) = Inr p \<Longrightarrow> fst p = x \<and> r = Inr (snd p)"
  by (cases r) auto

text \<open>
  Claim C4. When the stream path writes its file, the rows written are, in order, exactly
  the records whose corrected instant \<open>t\<close> satisfies \<open>begin < t < end\<close>, where \<open>begin\<close> and
  \<open>end\<close> are the instants of the first and the last fix of the track; a record at
  \<open>begin\<close> or at \<open>end\<close> is not written.
\<close>

theorem stream_keeps_strictly_inside:
  assumes run: "magnaprobe_get_gps_correction parse guess iso_other af df_magna ppk ppp nm mode =
                  (out, Inr (Some clean))"
    and trk: "magna_df_emlid parse guess mode ppk ppp = (out0, Inr (Some df))"
  shows "df \<noteq> [] \<and>
         (\<exists>df_utc. length df_utc = length df_magna \<and>
            (\<forall>i<length df_magna. fst (df_utc ! i) = df_magna ! i \<and>
               timestamp_magna iso_other guess (TIMESTAMP (df_magna ! i)) (ThisUTCtime (df_magna ! i)) =
                 Inr (snd (df_utc ! i))) \<and>
            map (\<lambda>r. (magna r, timestamp_utc r)) clean =
              filter (\<lambda>(x, t). timestamp (hd df) < t \<and> t < timestamp (last df)) df_utc) \<and>
         (\<forall>r\<in>set clean. timestamp (hd df) < timestamp_utc r \<and> timestamp_utc r < timestamp (last df))"
proof -
  from magna_run_stages [OF run] trk obtain b e df_utc trim where
    be: "begin_end (Some df) = Inr (b, e)"
    and utc: "apply_rows (\<lambda>x. case timestamp_magna iso_other guess (TIMESTAMP x) (ThisUTCtime x) of
                              Inl e \<Rightarrow> Inl e | Inr t \<Rightarrow> Inr (x, t)) df_magna = Inr df_utc"
    and dec: "apply_rows (magna_decimal af) (magna_trim b e df_utc) = Inr trim"
    and lk: "magna_lookup df trim = Inr clean"
    by auto
  from be have ne: "df \<noteq> []" by (auto simp: begin_end_def split: if_splits)
  with be have b: "b = timestamp (hd df)" and e: "e = timestamp (last df)"
    by (simp_all add: begin_end_Some)
  note n = apply_rows_nth [OF utc]
  have rows: "\<forall>i<length df_magna. fst (df_utc ! i) = df_magna ! i \<and>
               timestamp_magna iso_other guess (TIMESTAMP (df_magna ! i)) (ThisUTCtime (df_magna ! i)) =
                 Inr (snd (df_utc ! i))"
  proof (intro allI impI)
    fix i assume "i < length df_magna"
    with n have "(case timestamp_magna iso_other guess (TIMESTAMP (df_magna ! i)) (ThisUTCtime (df_magna ! i)) of
                    Inl e \<Rightarrow> Inl e | Inr t \<Rightarrow> Inr (df_magna ! i, t)) = Inr (df_utc ! i)"
      by simp
    then show "fst (df_utc ! i) = df_magna ! i \<and>
               timestamp_magna iso_other guess (TIMESTAMP (df_magna ! i)) (ThisUTCtime (df_magna ! i)) =
                 Inr (snd (df_utc ! i))"
      by (rule utc_row)
  qed
  have kept: "map (\<lambda>r. (magna r, timestamp_utc r)) clean =
              filter (\<lambda>(x, t). timestamp (hd df) < t \<and> t < timestamp (last df)) df_utc"
    using magna_lookup_keeps [OF lk] magna_decimal_keeps [OF dec]
    by (simp add: magna_trim_def b e)
  have inside: "\<forall>r\<in>set clean. timestamp (hd df) < timestamp_utc r \<and> timestamp_utc r < timestamp (last df)"
  proof
    fix r assume "r \<in> set clean"
    then have "(magna r, timestamp_utc r) \<in> set (map (\<lambda>r. (magna r, timestamp_utc r)) clean)"
      by (rule imageI [of r "set clean" "\<lambda>r. (magna r, timestamp_utc r)", simplified set_map [symmetric]])
    then show "timestamp (hd df) < timestamp_utc r \<and> timestamp_utc r < timestamp (last df)"
      unfolding kept by simp
  qed
  from ne n rows kept inside show ?thesis by blast
qed

lemma example_magna_track:
  "magna_df_emlid (parse_text example_today) guess_text ''PPP_correction'' [] example_ppp =
     ([], Inr (Some example_track))"
  by (simp add: magna_df_emlid_def emlid_PPP_def r1 r2 degree_dms2dec_col_def degree_dms2dec_def)

lemma example_instants:
  "timestamp_magna iso_text guess_text ''2023-12-15 10:00:00'' ''095942'' = Inr 1702634400"
  "timestamp_magna iso_text guess_text ''2023-12-15 10:00:00'' ''095947'' = Inr 1702634405"
  "timestamp_magna iso_text guess_text ''2023-12-15 10:00:00'' ''095952'' = Inr 1702634410"
  by (simp_all add: timestamp_magna_def iso8601_date_def Let_def text_eval)

lemma magna_run:
  assumes "magna_df_emlid parse guess mode ppk ppp = (out0, Inr (Some df))"
    and "begin_end (Some df) = Inr (b, e)"
    and "apply_rows (\<lambda>x. case timestamp_magna iso_other guess (TIMESTAMP x) (ThisUTCtime x) of
                            Inl e \<Rightarrow> Inl e | Inr t \<Rightarrow> Inr (x, t)) df_magna = Inr df_utc"
    and "apply_rows (magna_decimal af) (magna_trim b e df_utc) = Inr trim"
    and "magna_lookup df trim = Inr clean"
  shows "magnaprobe_get_gps_correction parse guess iso_other af df_magna ppk ppp nm mode =
           (out0 @ [''output csv file named : '' @ nm], Inr (Some clean))"
proof -
  have "df_magna \<noteq> []"
  proof
    assume "df_magna = []"
    with assms(3) have "df_utc = []" by simp
    with assms(4) have "trim = []" by (simp add: magna_trim_def)
    with assms(5) show False by (simp add: magna_lookup_def)
  qed
  with assms show ?thesis by (simp add: magnaprobe_get_gps_correction_def)
qed

abbreviation example_float :: "string \<Rightarrow> error + real" where
  "example_float \<equiv> (\<lambda>s. case py_int s of None \<Rightarrow> Inl ValueError | Some n \<Rightarrow> Inr (real n))"

abbreviation example_magna :: "string \<Rightarrow> magna_row" where
  "example_magna utc \<equiv>
     \<lparr>TIMESTAMP = ''2023-12-15 10:00:00'', ThisUTCtime = utc, latitude_a = ''45'',
      latitude_b = ''30'', Longitude_a = ''75'', Longitude_b = ''0''\<rparr>"

lemma example_float_values:
  "example_float ''45'' = Inr 45" "example_float ''30'' = Inr 30"
  "example_float ''75'' = Inr 75" "example_float ''0'' = Inr 0"
  by (simp_all add: py_int_def digit_val_def)

lemma example_stream_run:
  "magnaprobe_get_gps_correction (parse_text example_today) guess_text iso_text example_float
     [example_magna ''095942'', example_magna ''095947'', example_magna ''095952'']
     [] example_ppp ''out.csv'' ''PPP_correction'' =
   ([''output csv file named : out.csv''],
    Inr (Some [\<lparr>magna = example_magna ''095947'', timestamp_utc = 1702634405,
                 lat_magna = 45 + 30 / 60, lon_magna = 75 + 0 / 60,
                 lat_emlid = Some 45, lon_emlid = Some (- 75)\<rparr>]))"
proof -
  have be: "begin_end (Some example_track) = Inr (1702634400, 1702634410)"
    by (simp add: begin_end_def)
  have utc: "apply_rows (\<lambda>x. case timestamp_magna iso_text guess_text (TIMESTAMP x) (ThisUTCtime x) of
                            Inl e \<Rightarrow> Inl e | Inr t \<Rightarrow> Inr (x, t))
               [example_magna ''095942'', example_magna ''095947'', example_magna ''095952''] =
             Inr [(example_magna ''095942'', 1702634400), (example_magna ''095947'', 1702634405),
                  (example_magna ''095952'', 1702634410)]"
    by (simp add: example_instants)
  have tr: "magna_trim 1702634400 1702634410
              [(example_magna ''095942'', 1702634400), (example_magna ''095947'', 1702634405),
               (example_magna ''095952'', 1702634410)] =
            [(example_magna ''095947'', 1702634405)]"
    by (simp add: magna_trim_def)
  have dec: "apply_rows (magna_decimal example_float)
               (magna_trim 1702634400 1702634410
                 [(example_magna ''095942'', 1702634400), (example_magna ''095947'', 1702634405),
                  (example_magna ''095952'', 1702634410)]) =
             Inr [(example_magna ''095947'', 1702634405, 45 + 30 / 60, 75 + 0 / 60)]"
    unfolding tr by (simp add: magna_decimal_def example_float_values)
  have lk: "magna_lookup example_track [(example_magna ''095947'', 1702634405, 45 + 30 / 60, 75 + 0 / 60)] =
            Inr [\<lparr>magna = example_magna ''095947'', timestamp_utc = 1702634405,
                   lat_magna = 45 + 30 / 60, lon_magna = 75 + 0 / 60,
                   lat_emlid = Some 45, lon_emlid = Some (- 75)\<rparr>]"
    by (simp add: magna_lookup_def get_lat_emlid_def get_lon_emlid_def iloc_def example_positions)
  from magna_run [OF example_magna_track be utc dec lk, of "''out.csv''"] show ?thesis by simp
qed

theorem stream_keeps_strictly_inside_witness:
  "\<exists>clean.
     magnaprobe_get_gps_correction (parse_text example_today) guess_text iso_text example_float
       [example_magna ''095942'', example_magna ''095947'', example_magna ''095952'']
       [] example_ppp ''out.csv'' ''PPP_correction'' =
       ([''output csv file named : out.csv''], Inr (Some clean)) \<and>
     map timestamp_utc clean = [1702634405] \<and>
     (\<forall>r\<in>set clean. 1702634400 < timestamp_utc r \<and> timestamp_utc r < 1702634410)"
  using stream_keeps_strictly_inside [OF example_stream_run example_magna_track] example_stream_run
  by simp

end
